theory Spec2Isabelle
  imports Main
begin

section \<open>ff4d: a FUSE filesystem over a remote object store\<close>

text \<open>
  A shallow embedding of \<^verbatim>\<open>src/ff4d.py\<close> (class \<^verbatim>\<open>Dropbox\<close>).

  Conventions of the embedding.
  \<^item> The object's attributes \<^verbatim>\<open>self.cache\<close>, \<^verbatim>\<open>self.openfh\<close> and \<^verbatim>\<open>self.runfh\<close> are the
    fields of a state record that every method receives and returns; dictionaries are maps.
  \<^item> The module global \<^verbatim>\<open>dbx\<close> (the remote client) is a record of functions over an
    abstract state \<open>'r\<close>, the world behind the client (the remote store and the open
    download streams). Nothing is assumed about these functions.
  \<^item> An exception is a value: every method returns \<open>(exn + result, state)\<close>, the state being
    the one left behind when the exception was raised.
  \<^item> The module globals \<^verbatim>\<open>debug\<close> and \<^verbatim>\<open>debug_raw\<close> are taken at their default \<^verbatim>\<open>False\<close>,
    so no logging call appears. \<^verbatim>\<open>cache_time\<close> and \<^verbatim>\<open>write_cache\<close> are parameters.
  \<^item> The file runs under Python 3 (\<^verbatim>\<open>bytes()\<close>, \<^verbatim>\<open>resp.content.decode()\<close>), where text and
    bytes are two types. The embedding keeps them apart where the program mixes them: the
    \<^verbatim>\<open>'buf'\<close> of an upload dictionary is the text \<^verbatim>\<open>''\<close> after a flush and the bytes that
    FUSE passed to \<^verbatim>\<open>write\<close> otherwise. Paths are \<open>string\<close>, and so are the payloads given
    to the client.
  \<^item> \<^verbatim>\<open>int(time())\<close> is the parameter \<open>now\<close>: one reading of the clock per method call.
  \<^item> \<^verbatim>\<open>dbxStruct\<close> turns a client object into a dictionary by reflection. The embedding
    starts after it: the client functions return the dictionary, of which only the keys the
    program reads are kept. A dictionary is taken to be non-empty, hence truthy.
\<close>

subsection \<open>Exceptions\<close>

datatype errno = ENOENT | EIO | EOPNOTSUPP | EREMOTEIO

datatype exn =
    FuseOSError errno
  | KeyError string
  | AttributeError string
  | TypeError string
  | ValueError string
  | Exception string

text \<open>\<^verbatim>\<open>str(e)\<close>, as far as the program compares it.\<close>

fun exn_str :: "exn \<Rightarrow> string" where
  "exn_str (Exception msg) = msg"
| "exn_str (KeyError k) = [CHR 0x27] @ k @ [CHR 0x27]"
| "exn_str (AttributeError msg) = msg"
| "exn_str (TypeError msg) = msg"
| "exn_str (ValueError msg) = msg"
| "exn_str (FuseOSError ENOENT) = ''[Errno 2] No such file or directory''"
| "exn_str (FuseOSError EIO) = ''[Errno 5] Input/output error''"
| "exn_str (FuseOSError EOPNOTSUPP) = ''[Errno 95] Operation not supported''"
| "exn_str (FuseOSError EREMOTEIO) = ''[Errno 121] Remote I/O error''"

subsection \<open>Metadata dictionaries\<close>

text \<open>
  The scalar keys of a metadata dictionary; \<open>None\<close> is a missing key. \<open>is_deleted\<close> is the
  truth value of \<^verbatim>\<open>item.get('is_deleted', False)\<close>. The keys \<^verbatim>\<open>'id'\<close>, \<^verbatim>\<open>'size'\<close> and
  \<^verbatim>\<open>'.tag'\<close> are \<open>ident\<close>, \<open>fsize\<close> and \<open>tag\<close>.
\<close>

record meta =
  path :: "string option"
  path_display :: "string option"
  tag :: "string option"
  fsize :: "int option"
  client_modified :: "string option"
  ident :: "string option"
  is_deleted :: bool
  error :: "string option"
  cachets :: "int option"

datatype item = Item (meta: meta) (entries: "item list option") (contents: "item list option")

definition no_meta :: meta where
  "no_meta = \<lparr>path = None, path_display = None, tag = None, fsize = None,
     client_modified = None, ident = None, is_deleted = False, error = None,
     cachets = None\<rparr>"

definition set_path :: "string \<Rightarrow> item \<Rightarrow> item" where
  "set_path p it = Item ((meta it)\<lparr>path := Some p\<rparr>) (entries it) (contents it)"

definition set_cachets :: "int \<Rightarrow> item \<Rightarrow> item" where
  "set_cachets t it = Item ((meta it)\<lparr>cachets := Some t\<rparr>) (entries it) (contents it)"

definition set_entries :: "item list \<Rightarrow> item \<Rightarrow> item" where
  "set_entries es it = Item (meta it) (Some es) (contents it)"

subsection \<open>File handles and the state of the object\<close>

text \<open>
  The value under \<^verbatim>\<open>'buf'\<close>: a text string (the program only ever stores the literal
  \<^verbatim>\<open>''\<close>) or a bytes object. \<open>buf_len\<close> is \<^verbatim>\<open>len\<close>, \<open>buf_chars\<close> the characters of
  either, and \<open>buf_not_empty_text b\<close> is \<^verbatim>\<open>b != ""\<close>: a bytes object never equals a text
  string.
\<close>

datatype pybuf = Text string | Bytes string

fun buf_len :: "pybuf \<Rightarrow> nat" where
  "buf_len (Text t) = length t"
| "buf_len (Bytes b) = length b"

fun buf_chars :: "pybuf \<Rightarrow> string" where
  "buf_chars (Text t) = t"
| "buf_chars (Bytes b) = b"

fun buf_not_empty_text :: "pybuf \<Rightarrow> bool" where
  "buf_not_empty_text (Text t) = (t \<noteq> [])"
| "buf_not_empty_text (Bytes b) = True"

text \<open>
  \<^verbatim>\<open>openfh[fh]['f']\<close> is \<^verbatim>\<open>False\<close>, the raw stream of a download (known by the number the
  world gave it), or the dictionary of an upload: \<open>FUpload u n b\<close> is
  \<^verbatim>\<open>{'upload_id': u, 'offset': n, 'buf': b}\<close>.
\<close>

datatype fobj =
    FFalse
  | FStream nat
  | FUpload string nat pybuf

record fh_entry =
  mode :: string
  f :: fobj
  lock :: bool
  eoffset :: nat

record 'r state =
  cache :: "string \<rightharpoonup> item"
  openfh :: "nat \<rightharpoonup> fh_entry"
  runfh :: "nat \<rightharpoonup> bool"
  world :: 'r

record config =
  cache_time :: int
  write_cache :: nat

subsection \<open>The remote client\<close>

text \<open>
  The methods of \<^verbatim>\<open>dbx\<close> that the program calls. The two upload calls return the
  \<^verbatim>\<open>session_id\<close> attribute of their result, \<open>None\<close> when the result has none.
  \<^verbatim>\<open>files_download(path)[1].raw\<close> is a stream, and \<open>raw_read\<close> is its \<^verbatim>\<open>read(length)\<close>.
\<close>

record 'r dbx_api =
  files_list_folder :: "string \<Rightarrow> 'r \<Rightarrow> (exn + item) \<times> 'r"
  files_get_metadata :: "string \<Rightarrow> 'r \<Rightarrow> (exn + item) \<times> 'r"
  files_move :: "string \<Rightarrow> string \<Rightarrow> 'r \<Rightarrow> (exn + unit) \<times> 'r"
  files_delete :: "string \<Rightarrow> 'r \<Rightarrow> (exn + unit) \<times> 'r"
  files_create_folder :: "string \<Rightarrow> 'r \<Rightarrow> (exn + unit) \<times> 'r"
  files_upload_session_start :: "string \<Rightarrow> 'r \<Rightarrow> (exn + string option) \<times> 'r"
  files_upload_session_append_v2 ::
    "string \<Rightarrow> string \<Rightarrow> nat \<Rightarrow> 'r \<Rightarrow> (exn + string option) \<times> 'r"
  files_upload_session_finish ::
    "string \<Rightarrow> string \<Rightarrow> nat \<Rightarrow> string \<Rightarrow> 'r \<Rightarrow> (exn + unit) \<times> 'r"
  files_download :: "string \<Rightarrow> 'r \<Rightarrow> (exn + nat) \<times> 'r"
  raw_read :: "nat \<Rightarrow> nat \<Rightarrow> 'r \<Rightarrow> (exn + string) \<times> 'r"

text \<open>A call of the client inside a method: the world moves, the rest of the state stays.\<close>

definition remote :: "('r \<Rightarrow> 'a \<times> 'r) \<Rightarrow> 'r state \<Rightarrow> 'a \<times> 'r state" where
  "remote g s = (case g (world s) of (x, w) \<Rightarrow> (x, s\<lparr>world := w\<rparr>))"

text \<open>
  Sequencing of statements that may raise: the second runs in the state the first left,
  and only when the first returned. \<open>raising\<close> is
  \<^verbatim>\<open>try: ... except Exception: raise FuseOSError(code)\<close>.
\<close>

definition seq ::
  "('s \<Rightarrow> (exn + 'a) \<times> 's) \<Rightarrow> ('a \<Rightarrow> 's \<Rightarrow> (exn + 'b) \<times> 's) \<Rightarrow> 's \<Rightarrow> (exn + 'b) \<times> 's" where
  "seq m k s = (case m s of (Inl e, s1) \<Rightarrow> (Inl e, s1) | (Inr x, s1) \<Rightarrow> k x s1)"

definition raising :: "errno \<Rightarrow> ('s \<Rightarrow> (exn + 'a) \<times> 's) \<Rightarrow> 's \<Rightarrow> (exn + 'a) \<times> 's" where
  "raising code m s =
     (case m s of (Inl e, s1) \<Rightarrow> (Inl (FuseOSError code), s1) | (Inr x, s1) \<Rightarrow> (Inr x, s1))"

definition return :: "'a \<Rightarrow> 's \<Rightarrow> (exn + 'a) \<times> 's" where
  "return x s = (Inr x, s)"

subsection \<open>Wrappers around the client\<close>

text \<open>The loop of \<^verbatim>\<open>dbxMetadata\<close>: \<^verbatim>\<open>tmp['path'] = tmp['path_display']\<close> for each entry.\<close>

fun set_entry_paths :: "item list \<Rightarrow> exn + item list" where
  "set_entry_paths [] = Inr []"
| "set_entry_paths (tmp # rest) =
     (case path_display (meta tmp) of
        None \<Rightarrow> Inl (KeyError ''path_display'')
      | Some d \<Rightarrow>
          (case set_entry_paths rest of
             Inl e \<Rightarrow> Inl e
           | Inr rest' \<Rightarrow> Inr (set_path d tmp # rest')))"

text \<open>The statements of \<^verbatim>\<open>dbxMetadata\<close> after its \<^verbatim>\<open>try\<close> block.\<close>

definition dbxMetadata_result :: "string \<Rightarrow> item \<Rightarrow> exn + item option" where
  "dbxMetadata_result p result =
     (let result1 = set_path p result
      in case entries result1 of
           None \<Rightarrow> Inr (Some result1)
         | Some es \<Rightarrow>
             (case set_entry_paths es of
                Inl e \<Rightarrow> Inl e
              | Inr es' \<Rightarrow> Inr (Some (set_entries es' result1))))"

text \<open>
  \<^verbatim>\<open>dbxMetadata\<close>. Every exception inside the \<^verbatim>\<open>try\<close> block, its own two
  \<^verbatim>\<open>raise Exception(...)\<close> included, ends in \<^verbatim>\<open>return False\<close>, which is \<open>Inr None\<close>.
  \<open>mhash\<close> only reaches the unused dictionary \<^verbatim>\<open>args\<close>.
\<close>

definition dbxMetadata ::
  "'r dbx_api \<Rightarrow> string \<Rightarrow> string option \<Rightarrow> 'r state \<Rightarrow> (exn + item option) \<times> 'r state" where
  "dbxMetadata dbx p mhash s =
     (let query_path = (if p = ''/'' then [] else p)
      in case remote (files_list_folder dbx query_path) s of
           (Inl e, s1) \<Rightarrow> (Inr None, s1)
         | (Inr result, s1) \<Rightarrow>
             (case error (meta result) of
                None \<Rightarrow> (dbxMetadata_result p result, s1)
              | Some err \<Rightarrow>
                  if err = ''not_found'' then (Inr None, s1)
                  else if err = ''not_folder'' then
                    (case remote (files_get_metadata dbx query_path) s1 of
                       (Inl e, s2) \<Rightarrow> (Inr None, s2)
                     | (Inr result2, s2) \<Rightarrow> (dbxMetadata_result p result2, s2))
                  else (Inr None, s1)))"

definition dbxFileMove :: "'r dbx_api \<Rightarrow> string \<Rightarrow> string \<Rightarrow> 'r state \<Rightarrow> (exn + unit) \<times> 'r state" where
  "dbxFileMove dbx old new s = remote (files_move dbx old new) s"

definition dbxFileDelete :: "'r dbx_api \<Rightarrow> string \<Rightarrow> 'r state \<Rightarrow> (exn + unit) \<times> 'r state" where
  "dbxFileDelete dbx p s = remote (files_delete dbx p) s"

definition dbxFileCreateFolder :: "'r dbx_api \<Rightarrow> string \<Rightarrow> 'r state \<Rightarrow> (exn + unit) \<times> 'r state" where
  "dbxFileCreateFolder dbx p s = remote (files_create_folder dbx p) s"

text \<open>
  \<^verbatim>\<open>dbxChunkedUpload\<close> returns the pair of \<^verbatim>\<open>result['upload_id']\<close> and
  \<^verbatim>\<open>result['offset']\<close>; \<^verbatim>\<open>result['session_id']\<close> raises when the key is missing.
\<close>

definition dbxChunkedUpload ::
  "'r dbx_api \<Rightarrow> string \<Rightarrow> string \<Rightarrow> nat \<Rightarrow> 'r state \<Rightarrow> (exn + string \<times> nat) \<times> 'r state" where
  "dbxChunkedUpload dbx data uid off s =
     (case (if uid = [] then remote (files_upload_session_start dbx data) s
            else remote (files_upload_session_append_v2 dbx data uid off) s) of
        (Inl e, s1) \<Rightarrow> (Inl e, s1)
      | (Inr None, s1) \<Rightarrow> (Inl (KeyError ''session_id''), s1)
      | (Inr (Some sid), s1) \<Rightarrow> (Inr (sid, off + length data), s1))"

definition dbxCommitChunkedUpload ::
  "'r dbx_api \<Rightarrow> string \<Rightarrow> string \<Rightarrow> nat \<Rightarrow> 'r state \<Rightarrow> (exn + unit) \<times> 'r state" where
  "dbxCommitChunkedUpload dbx p uid off s =
     remote (files_upload_session_finish dbx [] uid off p) s"

text \<open>\<^verbatim>\<open>dbxFilehandle(path, seek)\<close> downloads \<^verbatim>\<open>path\<close>; its body never reads \<^verbatim>\<open>seek\<close>.\<close>

definition dbxFilehandle ::
  "'r dbx_api \<Rightarrow> string \<Rightarrow> nat \<Rightarrow> 'r state \<Rightarrow> (exn + nat) \<times> 'r state" where
  "dbxFilehandle dbx p seek s = remote (files_download dbx p) s"

subsection \<open>\<^verbatim>\<open>os.path.dirname\<close>\<close>

text \<open>
  \<^verbatim>\<open>posixpath.dirname\<close>: everything up to and including the last slash, then without
  its trailing slashes unless it consists of slashes only.
\<close>

definition dirname :: "string \<Rightarrow> string" where
  "dirname p =
     (let head = rev (dropWhile (\<lambda>c. c \<noteq> CHR ''/'') (rev p))
      in if head \<noteq> [] \<and> head \<noteq> replicate (length head) (CHR ''/'')
         then rev (dropWhile (\<lambda>c. c = CHR ''/'') (rev head))
         else head)"

subsection \<open>The file handle table\<close>

text \<open>
  \<^verbatim>\<open>getFH\<close>: the first \<open>i\<close> of \<^verbatim>\<open>range(1,8193)\<close> that is not a key of \<^verbatim>\<open>openfh\<close>;
  \<open>None\<close> is the \<^verbatim>\<open>False\<close> returned when the loop finds none.
\<close>

definition getFH :: "string \<Rightarrow> 'r state \<Rightarrow> nat option \<times> 'r state" where
  "getFH md s =
     (case find (\<lambda>i. openfh s i = None) [1..<8193] of
        Some i \<Rightarrow>
          (Some i,
           s\<lparr>openfh := (openfh s)(i \<mapsto> \<lparr>mode = md, f = FFalse, lock = False, eoffset = 0\<rparr>),
             runfh := (runfh s)(i \<mapsto> False)\<rparr>)
      | None \<Rightarrow> (None, s))"

text \<open>
  \<^verbatim>\<open>releaseFH\<close> returns \<^verbatim>\<open>None\<close> after a removal and \<^verbatim>\<open>False\<close> for an unknown handle:
  \<open>Some False\<close> is that \<^verbatim>\<open>False\<close>. \<^verbatim>\<open>runfh.pop(fh)\<close> raises when \<^verbatim>\<open>runfh\<close> lacks the key.
\<close>

definition releaseFH :: "nat \<Rightarrow> 'r state \<Rightarrow> (exn + bool option) \<times> 'r state" where
  "releaseFH fh s =
     (if openfh s fh \<noteq> None then
        (let s1 = s\<lparr>openfh := (openfh s)(fh := None)\<rparr>
         in if runfh s1 fh \<noteq> None then (Inr None, s1\<lparr>runfh := (runfh s1)(fh := None)\<rparr>)
            else (Inl (KeyError ''fh''), s1))
      else (Inr (Some False), s))"

subsection \<open>The metadata cache\<close>

text \<open>The loop of \<^verbatim>\<open>removeFromCache\<close> over \<^verbatim>\<open>item['contents']\<close>.\<close>

fun remove_childs :: "item list \<Rightarrow> (string \<rightharpoonup> item) \<Rightarrow> exn option \<times> (string \<rightharpoonup> item)" where
  "remove_childs [] c = (None, c)"
| "remove_childs (tmp # rest) c =
     (case path (meta tmp) of
        None \<Rightarrow> (Some (KeyError ''path''), c)
      | Some p \<Rightarrow> remove_childs rest (if c p \<noteq> None then c(p := None) else c))"

definition removeFromCache :: "string \<Rightarrow> 'r state \<Rightarrow> (exn + bool) \<times> 'r state" where
  "removeFromCache p s =
     (case cache s p of
        Some it \<Rightarrow>
          (case (case (entries it, contents it) of
                   (Some es, Some cs) \<Rightarrow> remove_childs cs (cache s)
                 | _ \<Rightarrow>
                   (let cur_path = dirname p
                    in (None,
                        case cache s cur_path of
                          Some parent \<Rightarrow>
                            if entries parent \<noteq> None then (cache s)(dirname p := None)
                            else cache s
                        | None \<Rightarrow> cache s))) of
             (Some e, c) \<Rightarrow> (Inl e, s\<lparr>cache := c\<rparr>)
           | (None, c) \<Rightarrow> (Inr True, s\<lparr>cache := (if c p \<noteq> None then c(p := None) else c)\<rparr>))
      | None \<Rightarrow> (Inr False, s))"

text \<open>
  The test that opens the refresh of a cached item,
  \<^verbatim>\<open>'entries' in item and item['cachets'] < int(time()) or (deep and 'contents' not in item)\<close>:
  \<^verbatim>\<open>and\<close> binds tighter than \<^verbatim>\<open>or\<close>, and \<^verbatim>\<open>item['cachets']\<close> is read only when the
  item has \<^verbatim>\<open>'entries'\<close>.
\<close>

definition needs_refresh :: "int \<Rightarrow> bool \<Rightarrow> item \<Rightarrow> exn + bool" where
  "needs_refresh now deep it =
     (case entries it of
        Some es \<Rightarrow>
          (case cachets (meta it) of
             None \<Rightarrow> Inl (KeyError ''cachets'')
           | Some t \<Rightarrow> Inr (t < now \<or> (deep \<and> contents it = None)))
      | None \<Rightarrow> Inr (deep \<and> contents it = None))"

text \<open>
  The loop of the refresh over \<^verbatim>\<open>item['entries']\<close>. \<^verbatim>\<open>tmp.update\<close> changes the entry
  inside the listing too, so the loop returns the listing as it stands when it ends.
\<close>

fun cache_fresh_entries ::
  "int \<Rightarrow> item list \<Rightarrow> (string \<rightharpoonup> item) \<Rightarrow> exn option \<times> item list \<times> (string \<rightharpoonup> item)" where
  "cache_fresh_entries t [] c = (None, [], c)"
| "cache_fresh_entries t (tmp # rest) c =
     (if entries tmp = None \<and> \<not> is_deleted (meta tmp) then
        (let tmp1 = set_cachets t tmp
         in case path (meta tmp1) of
              None \<Rightarrow> (Some (KeyError ''path''), tmp1 # rest, c)
            | Some p \<Rightarrow>
                (case cache_fresh_entries t rest (c(p \<mapsto> tmp1)) of
                   (e, rest', c') \<Rightarrow> (e, tmp1 # rest', c')))
      else (case cache_fresh_entries t rest c of (e, rest', c') \<Rightarrow> (e, tmp # rest', c')))"

text \<open>
  The refresh of a cached item (the \<^verbatim>\<open>try\<close> block of the first branch of
  \<^verbatim>\<open>getDropboxMetadata\<close>). Its \<^verbatim>\<open>except\<close> clause swallows every exception and the
  method returns the variable \<^verbatim>\<open>item\<close> as it is then: the cached item when
  \<^verbatim>\<open>dbxMetadata\<close> raised, \<^verbatim>\<open>False\<close> when it returned \<^verbatim>\<open>False\<close> (\<^verbatim>\<open>False.get\<close> raises),
  the new item afterwards. The new item and \<^verbatim>\<open>cache[path]\<close> are one object, unless an
  entry of the listing carries the same path and replaces it in the cache.
\<close>

definition refresh_metadata ::
  "config \<Rightarrow> 'r dbx_api \<Rightarrow> int \<Rightarrow> string \<Rightarrow> item \<Rightarrow> 'r state \<Rightarrow> (exn + item option) \<times> 'r state" where
  "refresh_metadata cfg dbx now p item0 s =
     (case dbxMetadata dbx p (ident (meta item0)) s of
        (Inl e, s1) \<Rightarrow> (Inr (Some item0), s1)
      | (Inr None, s1) \<Rightarrow> (Inr None, s1)
      | (Inr (Some new), s1) \<Rightarrow>
          if is_deleted (meta new) then (Inr None, s1)
          else
            (case removeFromCache p s1 of
               (Inl e, s2) \<Rightarrow> (Inr (Some new), s2)
             | (Inr b, s2) \<Rightarrow>
                 (let item1 = set_cachets (now + cache_time cfg) new
                  in case entries item1 of
                       None \<Rightarrow> (Inr (Some item1), s2\<lparr>cache := (cache s2)(p \<mapsto> item1)\<rparr>)
                     | Some es \<Rightarrow>
                         (case cache_fresh_entries (now + cache_time cfg) es
                                 ((cache s2)(p := None)) of
                            (e, es', c') \<Rightarrow>
                              (let item2 = set_entries es' item1
                               in (Inr (Some item2),
                                   s2\<lparr>cache := (if c' p = None then c'(p \<mapsto> item2)
                                                else c')\<rparr>))))))"

text \<open>The loop of the second branch: \<^verbatim>\<open>self.cache[tmp['path']] = tmp\<close>.\<close>

fun cache_entries :: "item list \<Rightarrow> (string \<rightharpoonup> item) \<Rightarrow> exn option \<times> (string \<rightharpoonup> item)" where
  "cache_entries [] c = (None, c)"
| "cache_entries (tmp # rest) c =
     (case path (meta tmp) of
        None \<Rightarrow> (Some (KeyError ''path''), c)
      | Some p \<Rightarrow> cache_entries rest (c(p \<mapsto> tmp)))"

text \<open>
  The second branch of \<^verbatim>\<open>getDropboxMetadata\<close>, for a path that is not a key of the
  cache. \<^verbatim>\<open>item['path']\<close> cannot raise: \<^verbatim>\<open>dbxMetadata\<close> has set the key.
\<close>

definition fetch_metadata ::
  "config \<Rightarrow> 'r dbx_api \<Rightarrow> int \<Rightarrow> string \<Rightarrow> 'r state \<Rightarrow> (exn + item option) \<times> 'r state" where
  "fetch_metadata cfg dbx now p s =
     (if (case cache s (dirname p) of Some parent \<Rightarrow> contents parent \<noteq> None | None \<Rightarrow> False)
      then (Inr None, s)
      else
        (case dbxMetadata dbx p None s of
           (Inl e, s1) \<Rightarrow>
             if exn_str e = ''apiRequest failed. HTTPError: 404'' then (Inr None, s1)
             else (Inl (FuseOSError EREMOTEIO), s1)
         | (Inr None, s1) \<Rightarrow> (Inr None, s1)
         | (Inr (Some new), s1) \<Rightarrow>
             if is_deleted (meta new) then (Inr None, s1)
             else
               (let item1 = set_cachets (now + cache_time cfg) new;
                    c1 = (cache s1)(p \<mapsto> item1)
                in case entries item1 of
                     None \<Rightarrow> (Inr (Some item1), s1\<lparr>cache := c1\<rparr>)
                   | Some es \<Rightarrow>
                       (case cache_entries es c1 of
                          (Some e, c2) \<Rightarrow> (Inl e, s1\<lparr>cache := c2\<rparr>)
                        | (None, c2) \<Rightarrow> (Inr (Some item1), s1\<lparr>cache := c2\<rparr>)))))"

text \<open>\<^verbatim>\<open>getDropboxMetadata\<close>; \<open>Inr None\<close> is the \<^verbatim>\<open>False\<close> it returns for "no such item".\<close>

definition getDropboxMetadata ::
  "config \<Rightarrow> 'r dbx_api \<Rightarrow> int \<Rightarrow> string \<Rightarrow> bool \<Rightarrow> 'r state \<Rightarrow> (exn + item option) \<times> 'r state" where
  "getDropboxMetadata cfg dbx now p deep s =
     (case cache s p of
        Some item0 \<Rightarrow>
          (case needs_refresh now deep item0 of
             Inl e \<Rightarrow> (Inl e, s)
           | Inr stale \<Rightarrow>
               if stale then refresh_metadata cfg dbx now p item0 s
               else (Inr (Some item0), s))
      | None \<Rightarrow> fetch_metadata cfg dbx now p s)"

subsection \<open>Filesystem functions\<close>

definition mkdir :: "'r dbx_api \<Rightarrow> string \<Rightarrow> nat \<Rightarrow> 'r state \<Rightarrow> (exn + nat) \<times> 'r state" where
  "mkdir dbx p md =
     seq (raising EIO (dbxFileCreateFolder dbx p))
       (\<lambda>_. seq (removeFromCache (dirname p)) (\<lambda>_. return 0))"

definition rmdir :: "'r dbx_api \<Rightarrow> string \<Rightarrow> 'r state \<Rightarrow> (exn + nat) \<times> 'r state" where
  "rmdir dbx p =
     seq (raising EIO (dbxFileDelete dbx p))
       (\<lambda>_. seq (removeFromCache p)
          (\<lambda>_. seq (removeFromCache (dirname p)) (\<lambda>_. return 0)))"

definition unlink :: "'r dbx_api \<Rightarrow> string \<Rightarrow> 'r state \<Rightarrow> (exn + nat) \<times> 'r state" where
  "unlink dbx p =
     seq (removeFromCache p)
       (\<lambda>_. seq (raising EIO (dbxFileDelete dbx p)) (\<lambda>_. return 0))"

definition rename :: "'r dbx_api \<Rightarrow> string \<Rightarrow> string \<Rightarrow> 'r state \<Rightarrow> (exn + nat) \<times> 'r state" where
  "rename dbx old new =
     seq (raising EIO (dbxFileMove dbx old new))
       (\<lambda>_. seq (removeFromCache old) (\<lambda>_. return 0))"

text \<open>
  \<^verbatim>\<open>while self.openfh[fh]['lock']: pass\<close>. No statement of the loop changes the flag, so
  the loop ends at once or never: \<open>None\<close> is the loop that never returns.
\<close>

partial_function (option) wait_lock :: "bool \<Rightarrow> unit option" where
  "wait_lock l = (if l then wait_lock l else Some ())"

text \<open>\<^verbatim>\<open>self.openfh[fh]['f'] = x\<close>, and the three assignments that end \<^verbatim>\<open>read\<close>.\<close>

definition set_f :: "nat \<Rightarrow> fobj \<Rightarrow> 'r state \<Rightarrow> (exn + unit) \<times> 'r state" where
  "set_f fh x s =
     (case openfh s fh of
        None \<Rightarrow> (Inl (KeyError ''fh''), s)
      | Some h \<Rightarrow> (Inr (), s\<lparr>openfh := (openfh s)(fh \<mapsto> h\<lparr>f := x\<rparr>)\<rparr>))"

definition read_done :: "nat \<Rightarrow> nat \<Rightarrow> string \<Rightarrow> 'r state \<Rightarrow> (exn + string) \<times> 'r state" where
  "read_done fh off rbytes s =
     (case openfh s fh of
        None \<Rightarrow> (Inl (KeyError ''fh''), s)
      | Some h \<Rightarrow>
          (Inr rbytes,
           s\<lparr>openfh := (openfh s)(fh \<mapsto> h\<lparr>lock := False, eoffset := off + length rbytes\<rparr>),
             runfh := (runfh s)(fh \<mapsto> False)\<rparr>))"

text \<open>
  \<^verbatim>\<open>read\<close> after the wait. A handle whose \<^verbatim>\<open>'f'\<close> is an upload dictionary has no
  \<^verbatim>\<open>read\<close> attribute: the \<^verbatim>\<open>except\<close> clause turns that into \<^verbatim>\<open>EIO\<close>.
\<close>

definition read_body ::
  "'r dbx_api \<Rightarrow> string \<Rightarrow> nat \<Rightarrow> nat \<Rightarrow> nat \<Rightarrow> 'r state \<Rightarrow> (exn + string) \<times> 'r state" where
  "read_body dbx p len off fh s =
     (case openfh s fh of
        None \<Rightarrow> (Inl (KeyError ''fh''), s)
      | Some h \<Rightarrow>
          seq (if f h = FFalse then
                 seq (raising EIO (dbxFilehandle dbx p off)) (\<lambda>st. set_f fh (FStream st))
               else if eoffset h \<noteq> off then
                 seq (dbxFilehandle dbx p off) (\<lambda>st. set_f fh (FStream st))
               else return ())
            (\<lambda>_ s1.
               case map_option f (openfh s1 fh) of
                 Some (FStream st) \<Rightarrow>
                   seq (raising EIO (remote (raw_read dbx st len)))
                     (\<lambda>rbytes. read_done fh off rbytes) s1
               | _ \<Rightarrow> (Inl (FuseOSError EIO), s1)) s)"

definition read ::
  "'r dbx_api \<Rightarrow> string \<Rightarrow> nat \<Rightarrow> nat \<Rightarrow> nat \<Rightarrow> 'r state \<Rightarrow> ((exn + string) \<times> 'r state) option" where
  "read dbx p len off fh s =
     (case openfh s fh of
        None \<Rightarrow> Some (Inl (KeyError ''fh''), s)
      | Some h \<Rightarrow>
          (case wait_lock (lock h) of
             None \<Rightarrow> None
           | Some u \<Rightarrow> Some (read_body dbx p len off fh (s\<lparr>runfh := (runfh s)(fh \<mapsto> True)\<rparr>))))"

text \<open>
  \<open>buf_plus b buf\<close> evaluates \<^verbatim>\<open>self.openfh[fh]['f']['buf'] + buf\<close> for the bytes object
  \<^verbatim>\<open>buf\<close>: text plus bytes raises \<^verbatim>\<open>TypeError\<close>, also when the text is empty.
\<close>

definition buf_plus :: "pybuf \<Rightarrow> string \<Rightarrow> 's \<Rightarrow> (exn + string) \<times> 's" where
  "buf_plus b buf s =
     (case b of
        Text t \<Rightarrow> (Inl (TypeError ''can only concatenate str to str''), s)
      | Bytes bs \<Rightarrow> (Inr (bs @ buf), s))"

text \<open>
  \<^verbatim>\<open>write\<close>. The whole body is inside \<^verbatim>\<open>try: ... except Exception: raise FuseOSError(EIO)\<close>.
  \<^verbatim>\<open>offset\<close> is a parameter that the body does not read. \<^verbatim>\<open>buf\<close> is the bytes object that
  FUSE passes. After a flush the handle keeps the text \<^verbatim>\<open>''\<close> under \<^verbatim>\<open>'buf'\<close>; a first
  write that is only kept stores the bytes. A handle whose \<^verbatim>\<open>'f'\<close> is a stream cannot be
  indexed with \<^verbatim>\<open>'buf'\<close>, which ends in \<^verbatim>\<open>EIO\<close> as well.
\<close>

definition write_fh ::
  "config \<Rightarrow> 'r dbx_api \<Rightarrow> string \<Rightarrow> string \<Rightarrow> nat \<Rightarrow> nat \<Rightarrow> 'r state \<Rightarrow> (exn + nat) \<times> 'r state" where
  "write_fh cfg dbx p buf off fh s =
     (case openfh s fh of
        None \<Rightarrow> (Inl (FuseOSError EIO), s)
      | Some h \<Rightarrow>
          (case f h of
             FFalse \<Rightarrow>
               if length buf \<ge> write_cache cfg \<or> length buf < 4096 then
                 raising EIO
                   (seq (dbxChunkedUpload dbx buf [] 0)
                      (\<lambda>result. seq (set_f fh (FUpload (fst result) (snd result) (Text [])))
                         (\<lambda>_. return (length buf)))) s
               else
                 raising EIO
                   (seq (set_f fh (FUpload [] 0 (Bytes buf))) (\<lambda>_. return (length buf))) s
           | FUpload uid off0 b \<Rightarrow>
               if length buf + buf_len b \<ge> write_cache cfg \<or> length buf < 4096 then
                 raising EIO
                   (seq (buf_plus b buf)
                      (\<lambda>data. seq (dbxChunkedUpload dbx data uid off0)
                         (\<lambda>result. seq (set_f fh (FUpload (fst result) (snd result) (Text [])))
                            (\<lambda>_. return (length buf))))) s
               else
                 raising EIO
                   (seq (buf_plus b buf)
                      (\<lambda>data. seq (set_f fh (FUpload uid off0 (Bytes data)))
                         (\<lambda>_. return (length buf)))) s
           | FStream st \<Rightarrow> (Inl (FuseOSError EIO), s)))"

text \<open>\<^verbatim>\<open>open\<close>; \<^verbatim>\<open>os.O_APPEND\<close> is bit 10 of the flags on Linux.\<close>

definition O_APPEND :: nat where
  "O_APPEND = 1024"

definition open_file :: "string \<Rightarrow> nat \<Rightarrow> 'r state \<Rightarrow> (exn + nat option) \<times> 'r state" where
  "open_file p flags s =
     (if (flags div O_APPEND) mod 2 = 1 then (Inl (FuseOSError EOPNOTSUPP), s)
      else (case getFH ''r'' s of (fh, s1) \<Rightarrow> (Inr fh, s1)))"

text \<open>
  \<^verbatim>\<open>create\<close>; \<open>nowstr\<close> is \<^verbatim>\<open>datetime.now().strftime('%Y-%m-%dT%H:%M:%SZ')\<close>. The
  placeholder is cached also when \<^verbatim>\<open>getFH\<close> returned \<^verbatim>\<open>False\<close>.
\<close>

definition create :: "string \<Rightarrow> nat \<Rightarrow> string \<Rightarrow> 'r state \<Rightarrow> (exn + nat option) \<times> 'r state" where
  "create p md nowstr s =
     (case getFH ''w'' s of
        (fh, s1) \<Rightarrow>
          (let cachedfh =
                 Item (no_meta\<lparr>fsize := Some 0, client_modified := Some nowstr,
                                path := Some p, tag := Some ''file''\<rparr>) None None
           in (Inr fh, s1\<lparr>cache := (cache s1)(p \<mapsto> cachedfh)\<rparr>)))"

text \<open>
  \<^verbatim>\<open>release\<close>. Nothing is caught here. The flush runs when \<^verbatim>\<open>'buf'\<close> differs from the
  text \<^verbatim>\<open>""\<close>, as any bytes object does; its result is dropped, and the commit reads
  \<^verbatim>\<open>'offset'\<close> from the handle as the last \<^verbatim>\<open>write\<close> left it.
\<close>

definition release :: "'r dbx_api \<Rightarrow> string \<Rightarrow> nat \<Rightarrow> 'r state \<Rightarrow> (exn + nat) \<times> 'r state" where
  "release dbx p fh s =
     (case openfh s fh of
        None \<Rightarrow> (Inl (KeyError ''fh''), s)
      | Some h \<Rightarrow>
          seq (case f h of
                 FUpload uid off0 b \<Rightarrow>
                   if uid \<noteq> [] then
                     seq (if buf_not_empty_text b then
                            seq (dbxChunkedUpload dbx (buf_chars b) uid off0) (\<lambda>_. return ())
                          else return ())
                       (\<lambda>_. dbxCommitChunkedUpload dbx p uid off0)
                   else return ()
               | _ \<Rightarrow> return ())
            (\<lambda>_. seq (if mode h = ''w'' then seq (removeFromCache (dirname p)) (\<lambda>_. return ())
                      else return ())
               (\<lambda>_. seq (releaseFH fh) (\<lambda>_. return 0))) s)"

subsection \<open>\<^verbatim>\<open>getattr\<close>\<close>

text \<open>
  What \<^verbatim>\<open>getattr\<close> reads from the operating system: \<^verbatim>\<open>os.getuid()\<close>, which is the real
  user id of the process, and the password database behind \<^verbatim>\<open>pwd.getpwuid\<close> (\<open>None\<close>: no
  such user, a \<^verbatim>\<open>KeyError\<close>). The effective ids of the process are part of its credentials
  too; the program never asks for them. \<open>strptime_mktime fmt text\<close> is
  \<^verbatim>\<open>mktime(datetime.strptime(text, fmt).timetuple())\<close> in whole seconds, \<open>None\<close> when the text
  does not match the format (a \<^verbatim>\<open>ValueError\<close>).
\<close>

record passwd =
  pw_uid :: nat
  pw_gid :: nat

record env =
  real_uid :: nat
  effective_uid :: nat
  effective_gid :: nat
  pwd_getpwuid :: "nat \<Rightarrow> passwd option"
  strptime_mktime :: "string \<Rightarrow> string \<Rightarrow> int option"

definition os_getuid :: "env \<Rightarrow> nat" where
  "os_getuid e = real_uid e"

record stat =
  st_mode :: nat
  st_size :: int
  st_ctime :: int
  st_mtime :: int
  st_atime :: int
  st_uid :: nat
  st_gid :: nat
  st_nlink :: nat

definition S_IFDIR :: nat where
  "S_IFDIR = 16384"

definition S_IFREG :: nat where
  "S_IFREG = 32768"

text \<open>The two modes: \<^verbatim>\<open>0o755\<close> is 493 and \<^verbatim>\<open>0o644\<close> is 420; the file type is above bit 11.\<close>

definition dir_mode :: nat where
  "dir_mode = S_IFDIR + 493"

definition reg_mode :: nat where
  "reg_mode = S_IFREG + 420"


definition endswith_Z :: "string \<Rightarrow> bool" where
  "endswith_Z m = (m \<noteq> [] \<and> last m = CHR ''Z'')"

definition modified_time :: "env \<Rightarrow> int \<Rightarrow> item \<Rightarrow> exn + int" where
  "modified_time e now it =
     (case client_modified (meta it) of
        Some m \<Rightarrow>
          (case (if endswith_Z m then strptime_mktime e ''%Y-%m-%dT%H:%M:%SZ'' m
                 else strptime_mktime e ''%Y-%m-%d %H:%M:%S'' m) of
             None \<Rightarrow> Inl (ValueError ''time data does not match format'')
           | Some t \<Rightarrow> Inr t)
      | None \<Rightarrow> Inr now)"

definition dir_properties :: "int \<Rightarrow> int \<Rightarrow> nat \<Rightarrow> nat \<Rightarrow> stat" where
  "dir_properties modified now uid gid =
     \<lparr>st_mode = dir_mode, st_size = 0, st_ctime = modified, st_mtime = modified,
      st_atime = now, st_uid = uid, st_gid = gid, st_nlink = 2\<rparr>"

definition file_properties :: "int \<Rightarrow> int \<Rightarrow> int \<Rightarrow> nat \<Rightarrow> nat \<Rightarrow> stat" where
  "file_properties sz modified now uid gid =
     \<lparr>st_mode = reg_mode, st_size = sz, st_ctime = modified, st_mtime = modified,
      st_atime = now, st_uid = uid, st_gid = gid, st_nlink = 1\<rparr>"

text \<open>
  The end of \<^verbatim>\<open>getattr\<close>, from \<^verbatim>\<open>if 'entries' in item or item['.tag'] == 'folder'\<close> on.
  An item that is neither a folder nor a file falls off the end: \<open>Inr None\<close> is the
  \<^verbatim>\<open>None\<close> that Python returns then.
\<close>

definition properties :: "int \<Rightarrow> int \<Rightarrow> nat \<Rightarrow> nat \<Rightarrow> item \<Rightarrow> exn + stat option" where
  "properties modified now uid gid it =
     (if entries it \<noteq> None then Inr (Some (dir_properties modified now uid gid))
      else
        (case tag (meta it) of
           None \<Rightarrow> Inl (KeyError ''.tag'')
         | Some t \<Rightarrow>
             if t = ''folder'' then Inr (Some (dir_properties modified now uid gid))
             else if t = ''file'' then
               (case fsize (meta it) of
                  None \<Rightarrow> Inl (KeyError ''size'')
                | Some sz \<Rightarrow> Inr (Some (file_properties sz modified now uid gid)))
             else Inr None))"

definition getattr ::
  "env \<Rightarrow> config \<Rightarrow> 'r dbx_api \<Rightarrow> int \<Rightarrow> string \<Rightarrow> 'r state \<Rightarrow> (exn + stat option) \<times> 'r state" where
  "getattr e cfg dbx now p s =
     (case pwd_getpwuid e (os_getuid e) of
        None \<Rightarrow> (Inl (KeyError ''getpwuid(): uid not found''), s)
      | Some pw \<Rightarrow>
          (case getDropboxMetadata cfg dbx now p False s of
             (Inl ex, s1) \<Rightarrow> (Inl ex, s1)
           | (Inr None, s1) \<Rightarrow> (Inl (FuseOSError ENOENT), s1)
           | (Inr (Some it), s1) \<Rightarrow>
               (case modified_time e now it of
                  Inl ex \<Rightarrow> (Inl ex, s1)
                | Inr modified \<Rightarrow> (properties modified now (pw_uid pw) (pw_gid pw) it, s1))))"

subsection \<open>A sequence of allocations\<close>

text \<open>\<open>k\<close> calls of \<^verbatim>\<open>getFH\<close> in a row, with the value each call returned.\<close>

fun allocate_many :: "nat \<Rightarrow> string \<Rightarrow> 'r state \<Rightarrow> nat option list \<times> 'r state" where
  "allocate_many 0 md s = ([], s)"
| "allocate_many (Suc k) md s =
     (case getFH md s of
        (r, s1) \<Rightarrow> (case allocate_many k md s1 of (rs, s2) \<Rightarrow> (r # rs, s2)))"

text \<open>The ids among the returned values (\<^verbatim>\<open>False\<close> is dropped).\<close>

fun ids_of :: "nat option list \<Rightarrow> nat list" where
  "ids_of [] = []"
| "ids_of (None # rs) = ids_of rs"
| "ids_of (Some i # rs) = i # ids_of rs"

subsection \<open>A simulated remote store\<close>

text \<open>
  A small remote store to run the program against: it records every call, lists the
  folders of a table, hands out one session id at a session start, answers an append with
  a result that carries no \<^verbatim>\<open>session_id\<close> (the append of the Dropbox client returns
  \<^verbatim>\<open>None\<close>), serves a download from the first byte of the file and lets
  \<^verbatim>\<open>read(length)\<close> take the next bytes of the stream. When \<open>down\<close> is set every call
  raises.
\<close>

datatype call =
    ListFolder string
  | GetMetadata string
  | Move string string
  | Delete string
  | CreateFolder string
  | SessionStart string
  | SessionAppend string string nat
  | SessionFinish string nat string
  | Download string
  | RawRead nat nat

record sim =
  calls :: "call list"
  listings :: "(string \<times> item) list"
  files :: "(string \<times> string) list"
  streams :: "string list"
  down :: bool

definition sim_answer :: "call \<Rightarrow> (sim \<Rightarrow> (exn + 'a) \<times> sim) \<Rightarrow> sim \<Rightarrow> (exn + 'a) \<times> sim" where
  "sim_answer c g w =
     (if down w then (Inl (Exception ''connection failed''), w\<lparr>calls := calls w @ [c]\<rparr>)
      else g (w\<lparr>calls := calls w @ [c]\<rparr>))"

definition sim_list_folder :: "string \<Rightarrow> sim \<Rightarrow> (exn + item) \<times> sim" where
  "sim_list_folder p =
     sim_answer (ListFolder p)
       (\<lambda>w. case map_of (listings w) p of
               None \<Rightarrow> (Inl (Exception ''path/not_found''), w)
             | Some it \<Rightarrow> (Inr it, w))"

definition sim_get_metadata :: "string \<Rightarrow> sim \<Rightarrow> (exn + item) \<times> sim" where
  "sim_get_metadata p =
     sim_answer (GetMetadata p) (\<lambda>w. (Inl (Exception ''path/not_found''), w))"

definition sim_delete :: "string \<Rightarrow> sim \<Rightarrow> (exn + unit) \<times> sim" where
  "sim_delete p =
     sim_answer (Delete p)
       (\<lambda>w. (Inr (), w\<lparr>listings := filter (\<lambda>e. fst e \<noteq> p) (listings w),
                         files := filter (\<lambda>e. fst e \<noteq> p) (files w)\<rparr>))"

definition sim_download :: "string \<Rightarrow> sim \<Rightarrow> (exn + nat) \<times> sim" where
  "sim_download p =
     sim_answer (Download p)
       (\<lambda>w. case map_of (files w) p of
               None \<Rightarrow> (Inl (Exception ''path/not_found''), w)
             | Some data \<Rightarrow> (Inr (length (streams w)), w\<lparr>streams := streams w @ [data]\<rparr>))"

definition sim_raw_read :: "nat \<Rightarrow> nat \<Rightarrow> sim \<Rightarrow> (exn + string) \<times> sim" where
  "sim_raw_read st len =
     sim_answer (RawRead st len)
       (\<lambda>w. if st < length (streams w) then
               (Inr (take len (streams w ! st)),
                w\<lparr>streams := (streams w)[st := drop len (streams w ! st)]\<rparr>)
             else (Inl (Exception ''closed stream''), w))"

definition sim_dbx :: "sim dbx_api" where
  "sim_dbx =
     \<lparr>files_list_folder = sim_list_folder,
      files_get_metadata = sim_get_metadata,
      files_move = (\<lambda>old new. sim_answer (Move old new) (\<lambda>w. (Inr (), w))),
      files_delete = sim_delete,
      files_create_folder = (\<lambda>p. sim_answer (CreateFolder p) (\<lambda>w. (Inr (), w))),
      files_upload_session_start =
        (\<lambda>data. sim_answer (SessionStart data) (\<lambda>w. (Inr (Some ''session''), w))),
      files_upload_session_append_v2 =
        (\<lambda>data uid off. sim_answer (SessionAppend data uid off) (\<lambda>w. (Inr None, w))),
      files_upload_session_finish =
        (\<lambda>data uid off p. sim_answer (SessionFinish uid off p) (\<lambda>w. (Inr (), w))),
      files_download = sim_download,
      raw_read = sim_raw_read\<rparr>"

definition sim0 :: sim where
  "sim0 = \<lparr>calls = [], listings = [], files = [], streams = [], down = False\<rparr>"

definition start_state :: "'r \<Rightarrow> 'r state" where
  "start_state w = \<lparr>cache = Map.empty, openfh = Map.empty, runfh = Map.empty, world = w\<rparr>"

definition fresh_fh :: "string \<Rightarrow> fh_entry" where
  "fresh_fh md = \<lparr>mode = md, f = FFalse, lock = False, eoffset = 0\<rparr>"

subsection \<open>States used in the examples\<close>

text \<open>
  Concrete configurations, stores and states at which the theorems below are evaluated:
  handle tables, a handle opened for writing or for reading, the states that the program
  itself reaches from the empty state (\<open>scenario2_created\<close>, \<open>listed_a\<close>, ...), and a
  process environment whose real and effective ids differ.
\<close>

definition table12 :: "unit state" where
  "table12 = (start_state ())\<lparr>openfh := [1 \<mapsto> fresh_fh ''r'', 2 \<mapsto> fresh_fh ''w''],
      runfh := [1 \<mapsto> False, 2 \<mapsto> False]\<rparr>"

definition full_table :: "unit state" where
  "full_table = (start_state ())\<lparr>openfh := (\<lambda>i. Some (fresh_fh ''r'')), runfh := (\<lambda>i. Some False)\<rparr>"

definition cfg4096 :: config where
  "cfg4096 = \<lparr>cache_time = 120, write_cache = 4096\<rparr>"

definition opened_w :: "sim state" where
  "opened_w = (start_state sim0)\<lparr>openfh := [1 \<mapsto> fresh_fh ''w''], runfh := [1 \<mapsto> False]\<rparr>"

definition cfg_default :: config where
  "cfg_default = \<lparr>cache_time = 120, write_cache = 4194304\<rparr>"

definition big_buf :: string where
  "big_buf = replicate 5000 (CHR ''x'')"

definition wrote_abc :: "sim state" where
  "wrote_abc = snd (write_fh cfg4096 sim_dbx ''/f'' ''abc'' 0 1 opened_w)"

definition buffered_big :: "sim state" where
  "buffered_big = snd (write_fh cfg_default sim_dbx ''/f'' big_buf 0 1 opened_w)"

definition placeholder :: "string \<Rightarrow> string \<Rightarrow> item" where
  "placeholder p nowstr =
     Item (no_meta\<lparr>fsize := Some 0, client_modified := Some nowstr,
                    path := Some p, tag := Some ''file''\<rparr>) None None"

definition env0 :: env where
  "env0 = \<lparr>real_uid = 1000, effective_uid = 0, effective_gid = 0,
      pwd_getpwuid = (\<lambda>u. if u = 1000 then Some \<lparr>pw_uid = 1000, pw_gid = 100\<rparr> else None),
      strptime_mktime = (\<lambda>fmt txt.
         if fmt = ''%Y-%m-%dT%H:%M:%SZ'' \<and> txt = ''2024-01-01T00:00:00Z'' then Some 1704067200
         else if fmt = ''%Y-%m-%d %H:%M:%S'' \<and> txt = ''2024-01-01 00:00:00'' then Some 1704067200
         else None)\<rparr>"

definition scenario2_created :: "sim state" where
  "scenario2_created = snd (create ''/f'' 420 ''2024-01-01T00:00:00Z'' (start_state sim0))"

definition scenario2_first :: "sim state" where
  "scenario2_first = snd (write_fh cfg4096 sim_dbx ''/f'' ''0123456789'' 0 1 scenario2_created)"

definition scenario2_written :: "sim state" where
  "scenario2_written = snd (write_fh cfg4096 sim_dbx ''/f'' ''abcde'' 10 1 scenario2_first)"

definition scenario2_released :: "sim state" where
  "scenario2_released = snd (release sim_dbx ''/f'' 1 scenario2_written)"

definition child_x :: item where
  "child_x = Item (no_meta\<lparr>path_display := Some ''/a/x'', tag := Some ''file'', fsize := Some 7\<rparr>) None None"

definition listing_a :: item where
  "listing_a = Item no_meta (Some [child_x]) None"

definition sim_a :: sim where
  "sim_a = sim0\<lparr>listings := [(''/a'', listing_a)]\<rparr>"

definition listed_a :: "sim state" where
  "listed_a = snd (getDropboxMetadata cfg_default sim_dbx 1000 ''/a'' False (start_state sim_a))"

definition cached_x :: item where
  "cached_x = Item (no_meta\<lparr>path_display := Some ''/a/x'', tag := Some ''file'', fsize := Some 7,
      path := Some ''/a/x''\<rparr>) None None"

definition cached_a :: item where
  "cached_a = Item (no_meta\<lparr>path := Some ''/a'', cachets := Some 1120\<rparr>) (Some [cached_x]) None"

definition sim_down :: sim where
  "sim_down = sim0\<lparr>down := True\<rparr>"

definition cached_f_down :: "sim state" where
  "cached_f_down = (start_state sim_down)\<lparr>cache := [''/f'' \<mapsto> placeholder ''/f'' ''2024-01-01T00:00:00Z'']\<rparr>"

definition sim_file :: sim where
  "sim_file = sim0\<lparr>files := [(''/f'', ''abcdefgh'')]\<rparr>"

definition opened_r :: "sim state" where
  "opened_r = (start_state sim_file)\<lparr>openfh := [1 \<mapsto> fresh_fh ''r''], runfh := [1 \<mapsto> False]\<rparr>"

definition read_at_2 :: "sim state" where
  "read_at_2 = \<lparr>cache = Map.empty,
      openfh = [1 \<mapsto> (fresh_fh ''r'')\<lparr>f := FStream 0, eoffset := 6\<rparr>],
      runfh = [1 \<mapsto> False],
      world = sim_file\<lparr>calls := [Download ''/f'', RawRead 0 4], streams := [''efgh'']\<rparr>\<rparr>"

definition stale_f :: item where
  "stale_f = Item (no_meta\<lparr>path := Some ''/f'', tag := Some ''file'', fsize := Some 7,
      cachets := Some 100\<rparr>) None None"

definition stale_state :: "sim state" where
  "stale_state = (start_state sim0)\<lparr>cache := [''/f'' \<mapsto> stale_f]\<rparr>"

definition listed_root :: "sim state" where
  "listed_root = (start_state sim0)\<lparr>cache := [''/'' \<mapsto> Item no_meta (Some []) (Some [])]\<rparr>"





section \<open>Properties\<close>

subsection \<open>The file handle table\<close>

lemma find_free:
  assumes "1 \<le> k" "k \<le> 8192" "openfh s k = None" "\<forall>j. 1 \<le> j \<and> j < k \<longrightarrow> openfh s j \<noteq> None"
  shows "find (\<lambda>i. openfh s i = None) [1..<8193] = Some k"
proof -
  have "\<exists>i<length [1..<8193::nat]. openfh s ([1..<8193] ! i) = None \<and> k = [1..<8193] ! i \<and> (\<forall>j<i. \<not> openfh s ([1..<8193] ! j) = None)"
    using assms by (intro exI[of _ "k - 1"]) auto
  then show ?thesis by (simp only: find_Some_iff)
qed

lemma find_none:
  assumes "\<forall>j. 1 \<le> j \<and> j \<le> 8192 \<longrightarrow> openfh s j \<noteq> None"
  shows "find (\<lambda>i. openfh s i = None) [1..<8193] = None"
  using assms by (auto simp: find_None_iff)

lemma find_Some_D:
  assumes "find (\<lambda>i. openfh s i = None) [1..<8193] = Some i"
  shows "1 \<le> i \<and> i \<le> 8192 \<and> openfh s i = None \<and> (\<forall>j. 1 \<le> j \<and> j < i \<longrightarrow> openfh s j \<noteq> None)"
proof -
  from assms obtain n where n: "n < 8192" "openfh s (Suc n) = None" "i = Suc n"
    "\<forall>j<n. openfh s (Suc j) \<noteq> None"
    by (auto simp: find_Some_iff)
  have "openfh s j \<noteq> None" if "1 \<le> j" "j < i" for j
  proof -
    from that obtain j' where "j = Suc j'" by (cases j) auto
    with that n show ?thesis by auto
  qed
  with n show ?thesis by auto
qed

lemma getFH_Some:
  assumes "getFH md s = (Some i, s')"
  shows "1 \<le> i \<and> i \<le> 8192 \<and> openfh s i = None \<and> (\<forall>j. 1 \<le> j \<and> j < i \<longrightarrow> openfh s j \<noteq> None)
       \<and> openfh s' = (openfh s)(i \<mapsto> fresh_fh md)"
proof -
  from assms have fi: "find (\<lambda>i. openfh s i = None) [1..<8193] = Some i"
    and s': "openfh s' = (openfh s)(i \<mapsto> fresh_fh md)"
    by (auto simp: getFH_def fresh_fh_def split: option.splits)
  from find_Some_D[OF fi] s' show ?thesis by simp
qed

lemma getFH_None: "getFH md s = (None, s') \<Longrightarrow> s' = s"
  by (auto simp: getFH_def split: option.splits)

lemma getFH_smallest:
  assumes "1 \<le> k" "k \<le> 8192" "openfh s k = None" "\<forall>j. 1 \<le> j \<and> j < k \<longrightarrow> openfh s j \<noteq> None"
  shows "getFH md s = (Some k, s\<lparr>openfh := (openfh s)(k \<mapsto> fresh_fh md), runfh := (runfh s)(k \<mapsto> False)\<rparr>)"
  unfolding getFH_def find_free[OF assms] fresh_fh_def by simp

lemma getFH_full:
  assumes "\<forall>j. 1 \<le> j \<and> j \<le> 8192 \<longrightarrow> openfh s j \<noteq> None"
  shows "getFH md s = (None, s)"
  unfolding getFH_def find_none[OF assms] by simp

lemma allocate_many_distinct:
  "distinct (ids_of (fst (allocate_many k md s))) \<and> (\<forall>i \<in> set (ids_of (fst (allocate_many k md s))). openfh s i = None)"
proof (induction k arbitrary: s)
  case 0
  show ?case by simp
next
  case (Suc k)
  obtain r s1 where g: "getFH md s = (r, s1)" by (cases "getFH md s")
  obtain rs s2 where a: "allocate_many k md s1 = (rs, s2)" by (cases "allocate_many k md s1")
  from Suc.IH[of s1] a have ih: "distinct (ids_of rs)" "\<forall>i\<in>set (ids_of rs). openfh s1 i = None" by auto
  show ?case
  proof (cases r)
    case None
    with g have "s1 = s" by (simp add: getFH_None)
    with None g a ih show ?thesis by simp
  next
    case (Some i)
    with g have gs: "openfh s i = None" "openfh s1 = (openfh s)(i \<mapsto> fresh_fh md)"
      using getFH_Some[of md s i s1] by auto
    from ih(2) gs have "i \<notin> set (ids_of rs)" by auto
    moreover from ih(2) gs have "\<forall>j\<in>set (ids_of rs). openfh s j = None"
      by (auto split: if_splits)
    ultimately show ?thesis using Some g a ih gs by simp
  qed
qed

lemma allocate_many_range:
  assumes "\<forall>j. openfh s j \<noteq> None \<longleftrightarrow> 1 \<le> j \<and> j < n" "1 \<le> n" "n + k \<le> 8193"
  shows "fst (allocate_many k md s) = map Some [n..<n + k]"
  using assms
proof (induction k arbitrary: s n)
  case 0
  show ?case by simp
next
  case (Suc k)
  have g: "getFH md s = (Some n, s\<lparr>openfh := (openfh s)(n \<mapsto> fresh_fh md), runfh := (runfh s)(n \<mapsto> False)\<rparr>)"
    using Suc.prems by (intro getFH_smallest) auto
  let ?s1 = "s\<lparr>openfh := (openfh s)(n \<mapsto> fresh_fh md), runfh := (runfh s)(n \<mapsto> False)\<rparr>"
  have ih: "fst (allocate_many k md ?s1) = map Some [Suc n..<Suc n + k]"
    using Suc.prems by (intro Suc.IH) auto
  have u: "[n..<n + Suc k] = n # [Suc n..<Suc n + k]"
    by (simp add: upt_conv_Cons del: upt_Suc)
  obtain rs s2 where a: "allocate_many k md ?s1 = (rs, s2)" by (cases "allocate_many k md ?s1")
  with ih have "rs = map Some [Suc n..<Suc n + k]" by simp
  with g a show ?case unfolding u by simp
qed

lemma releaseFH_frees: "openfh (snd (releaseFH i s)) j = (if j = i then None else openfh s j)"
  by (auto simp: releaseFH_def Let_def)

lemma getFH_returns_smallest: "(1 \<le> k \<and> k \<le> 8192 \<and> openfh s k = None \<and> (\<forall>j. 1 \<le> j \<and> j < k \<longrightarrow> openfh s j \<noteq> None)
      \<longrightarrow> fst (getFH md s) = Some k \<and> openfh (snd (getFH md s)) k = Some (fresh_fh md))"
proof (intro conjI impI)
  assume "1 \<le> k \<and> k \<le> 8192 \<and> openfh s k = None \<and> (\<forall>j. 1 \<le> j \<and> j < k \<longrightarrow> openfh s j \<noteq> None)"
  then have g: "getFH md s = (Some k, s\<lparr>openfh := (openfh s)(k \<mapsto> fresh_fh md), runfh := (runfh s)(k \<mapsto> False)\<rparr>)"
    by (intro getFH_smallest) auto
  show "fst (getFH md s) = Some k" by (simp add: g)
  show "openfh (snd (getFH md s)) k = Some (fresh_fh md)" by (simp add: g)
qed

lemma getFH_returned_is_smallest: "(fst (getFH md s) = Some i
      \<longrightarrow> 1 \<le> i \<and> i \<le> 8192 \<and> openfh s i = None \<and> (\<forall>j. 1 \<le> j \<and> j < i \<longrightarrow> openfh s j \<noteq> None))"
proof (intro impI)
  assume a: "fst (getFH md s) = Some i"
  then have "getFH md s = (Some i, snd (getFH md s))" by (metis prod.collapse)
  from getFH_Some[OF this]
  show "1 \<le> i \<and> i \<le> 8192 \<and> openfh s i = None \<and> (\<forall>j. 1 \<le> j \<and> j < i \<longrightarrow> openfh s j \<noteq> None)"
    by blast
qed

lemma allocate_many_from_empty: "(n \<le> 8192 \<and> openfh s0 = Map.empty \<longrightarrow> fst (allocate_many n md s0) = map Some [1..<Suc n])"
proof (intro impI)
  assume "n \<le> 8192 \<and> openfh s0 = Map.empty"
  then have "fst (allocate_many n md s0) = map Some [1..<1 + n]"
    by (intro allocate_many_range) auto
  then show "fst (allocate_many n md s0) = map Some [1..<Suc n]" by simp
qed

lemma getFH_after_release:
  "1 \<le> r \<and> r \<le> 8192 \<and> openfh s r \<noteq> None
      \<longrightarrow> (\<exists>k'. fst (getFH md (snd (releaseFH r s))) = Some k' \<and> 1 \<le> k' \<and> k' \<le> r
            \<and> ((\<forall>j. 1 \<le> j \<and> j < r \<longrightarrow> openfh s j \<noteq> None) \<longrightarrow> k' = r))"
proof
  assume assms: "1 \<le> r \<and> r \<le> 8192 \<and> openfh s r \<noteq> None"
  let ?s1 = "snd (releaseFH r s)"
  let ?P = "\<lambda>j. 1 \<le> j \<and> openfh ?s1 j = None"
  define k where "k = (LEAST j. ?P j)"
  have Pr: "?P r" using assms by (simp add: releaseFH_frees)
  have Pk: "?P k" unfolding k_def using Pr by (rule LeastI)
  have kr: "k \<le> r" unfolding k_def using Pr by (rule Least_le)
  have small: "\<forall>j. 1 \<le> j \<and> j < k \<longrightarrow> openfh ?s1 j \<noteq> None"
  proof (intro allI impI)
    fix j assume j: "1 \<le> j \<and> j < k"
    then have "\<not> ?P j" unfolding k_def by (intro not_less_Least) simp
    with j show "openfh ?s1 j \<noteq> None" by simp
  qed
  have k8: "k \<le> 8192" using kr assms by linarith
  have "getFH md ?s1 = (Some k, ?s1\<lparr>openfh := (openfh ?s1)(k \<mapsto> fresh_fh md), runfh := (runfh ?s1)(k \<mapsto> False)\<rparr>)"
    using Pk k8 small by (intro getFH_smallest) blast+
  then have g: "fst (getFH md ?s1) = Some k" by simp
  have e: "k = r" if "\<forall>j. 1 \<le> j \<and> j < r \<longrightarrow> openfh s j \<noteq> None"
  proof (rule ccontr)
    assume "k \<noteq> r"
    with kr have "k < r" by simp
    with Pk have "1 \<le> k \<and> k < r \<and> openfh s k = None"
      by (simp add: releaseFH_frees split: if_splits)
    with that show False by blast
  qed
  from g Pk kr e show "\<exists>k'. fst (getFH md (snd (releaseFH r s))) = Some k' \<and> 1 \<le> k' \<and> k' \<le> r
            \<and> ((\<forall>j. 1 \<le> j \<and> j < r \<longrightarrow> openfh s j \<noteq> None) \<longrightarrow> k' = r)"
    by blast
qed

lemma getFH_exhausted:
  "(\<forall>j. 1 \<le> j \<and> j \<le> 8192 \<longrightarrow> openfh sf j \<noteq> None) \<longrightarrow> getFH md sf = (None, sf)"
  using getFH_full by blast

lemma allocate_many_ids_distinct: "distinct (ids_of (fst (allocate_many n md s)))"
  using allocate_many_distinct[of n md s] by blast

text \<open>
  Claim C8. \<^verbatim>\<open>getFH\<close> returns the smallest id of 1..8192 that is not a key of
  \<^verbatim>\<open>openfh\<close>, and an id it returns is that smallest one; \<open>n \<le> 8192\<close> allocations on an
  empty table return the ids 1 to \<open>n\<close>, and the ids returned by any run of allocations are
  pairwise distinct; after \<^verbatim>\<open>releaseFH(r)\<close> the next allocation returns an id that is at
  most \<open>r\<close>, and \<open>r\<close> itself when every smaller id is in use; when all of 1..8192 are in
  use \<^verbatim>\<open>getFH\<close> returns \<^verbatim>\<open>False\<close> (here \<open>None\<close>), which is no id, and changes nothing.
\<close>

theorem getFH_table:
  "(1 \<le> k \<and> k \<le> 8192 \<and> openfh s k = None \<and> (\<forall>j. 1 \<le> j \<and> j < k \<longrightarrow> openfh s j \<noteq> None)
      \<longrightarrow> fst (getFH md s) = Some k \<and> openfh (snd (getFH md s)) k = Some (fresh_fh md))
   \<and> (fst (getFH md s) = Some i
      \<longrightarrow> 1 \<le> i \<and> i \<le> 8192 \<and> openfh s i = None \<and> (\<forall>j. 1 \<le> j \<and> j < i \<longrightarrow> openfh s j \<noteq> None))
   \<and> (n \<le> 8192 \<and> openfh s0 = Map.empty \<longrightarrow> fst (allocate_many n md s0) = map Some [1..<Suc n])
   \<and> distinct (ids_of (fst (allocate_many n md s)))
   \<and> (1 \<le> r \<and> r \<le> 8192 \<and> openfh s r \<noteq> None
      \<longrightarrow> (\<exists>k'. fst (getFH md (snd (releaseFH r s))) = Some k' \<and> 1 \<le> k' \<and> k' \<le> r
            \<and> ((\<forall>j. 1 \<le> j \<and> j < r \<longrightarrow> openfh s j \<noteq> None) \<longrightarrow> k' = r)))
   \<and> ((\<forall>j. 1 \<le> j \<and> j \<le> 8192 \<longrightarrow> openfh sf j \<noteq> None) \<longrightarrow> getFH md sf = (None, sf))"
  apply (rule conjI, rule getFH_returns_smallest)
  apply (rule conjI, rule getFH_returned_is_smallest)
  apply (rule conjI, rule allocate_many_from_empty)
  apply (rule conjI, rule allocate_many_ids_distinct)
  apply (rule conjI, rule getFH_after_release)
  apply (rule getFH_exhausted)
  done

lemma table12_small: "\<forall>j. 1 \<le> j \<and> j < 3 \<longrightarrow> openfh table12 j \<noteq> None"
proof (intro allI impI)
  fix j :: nat assume "1 \<le> j \<and> j < 3"
  then have "j = 1 \<or> j = 2" by arith
  then show "openfh table12 j \<noteq> None" by (auto simp: table12_def)
qed

text \<open>The theorem at a table that holds the handles 1 and 2, at the empty table and at a full one.\<close>

theorem getFH_table_witness:
  "openfh table12 3 = None \<and> openfh table12 1 \<noteq> None \<and> openfh table12 2 \<noteq> None
   \<and> fst (getFH ''r'' table12) = Some 3
   \<and> fst (allocate_many 4 ''r'' (start_state ())) = [Some 1, Some 2, Some 3, Some 4]
   \<and> distinct (ids_of (fst (allocate_many 4 ''r'' table12)))
   \<and> openfh table12 1 \<noteq> None
   \<and> fst (getFH ''r'' (snd (releaseFH 1 table12))) = Some 1
   \<and> openfh full_table 1 \<noteq> None \<and> openfh full_table 8192 \<noteq> None
   \<and> getFH ''r'' full_table = (None, full_table)"
proof -
  have h3: "openfh table12 3 = None" by (simp add: table12_def)
  have h1: "openfh table12 1 \<noteq> None" by (simp add: table12_def)
  have he: "openfh (start_state ()) = Map.empty" by (simp add: start_state_def)
  have hf: "\<forall>j. 1 \<le> j \<and> j \<le> 8192 \<longrightarrow> openfh full_table j \<noteq> None" by (simp add: full_table_def)
  have u: "[1..<Suc 4] = [1, 2, 3, 4::nat]" by (simp add: upt_conv_Cons del: upt_Suc)
  have n: "(1::nat) \<le> 3" "(3::nat) \<le> 8192" "(4::nat) \<le> 8192" "(1::nat) \<le> 1" "(1::nat) \<le> 8192"
    by simp_all
  note T = getFH_table[of 3 table12 "''r''" 3 4 "start_state ()" 1 full_table]
  have T1: "fst (getFH ''r'' table12) = Some 3"
    using T h3 table12_small n by blast
  have T3: "fst (allocate_many 4 ''r'' (start_state ())) = map Some [1..<Suc 4]"
    using T he n by blast
  then have b: "fst (allocate_many 4 ''r'' (start_state ())) = [Some 1, Some 2, Some 3, Some 4]"
    unfolding u by simp
  have c: "distinct (ids_of (fst (allocate_many 4 ''r'' table12)))" using T by blast
  have "\<exists>k'. fst (getFH ''r'' (snd (releaseFH 1 table12))) = Some k' \<and> 1 \<le> k' \<and> k' \<le> 1"
    using T h1 n by blast
  then have d: "fst (getFH ''r'' (snd (releaseFH 1 table12))) = Some 1" by auto
  have e: "getFH ''r'' full_table = (None, full_table)" using T hf by blast
  have h2: "openfh table12 2 \<noteq> None" by (simp add: table12_def)
  have hf': "openfh full_table 1 \<noteq> None" "openfh full_table 8192 \<noteq> None"
    by (simp_all add: full_table_def)
  from h3 h1 h2 T1 b c d hf' e show ?thesis by blast
qed

subsection \<open>write\<close>

lemmas sim_eval = seq_def raising_def return_def set_f_def dbxChunkedUpload_def remote_def
  sim_dbx_def sim_answer_def sim0_def start_state_def fresh_fh_def

lemmas write_unfold = write_fh_def seq_def raising_def return_def set_f_def buf_plus_def

lemma write_fh_returns_length:
  "fst (write_fh cfg dbx p buf off fh s) = Inr n \<Longrightarrow> n = length buf"
  unfolding write_unfold
  by (auto split: option.splits fobj.splits pybuf.splits if_splits prod.splits sum.splits)

lemma write_fh_only_EIO:
  "fst (write_fh cfg dbx p buf off fh s) = Inl e \<Longrightarrow> e = FuseOSError EIO"
  unfolding write_unfold
  by (auto split: option.splits fobj.splits pybuf.splits if_splits prod.splits sum.splits)

lemma write_fh_ignores_offset:
  "write_fh cfg dbx p buf off fh s = write_fh cfg dbx p buf off' fh s"
  unfolding write_fh_def by simp

lemma dbxChunkedUpload_ok:
  assumes "(if uid = [] then files_upload_session_start dbx data
           else files_upload_session_append_v2 dbx data uid off) (world s) = (Inr (Some sid), w)"
  shows "dbxChunkedUpload dbx data uid off s = (Inr (sid, off + length data), s\<lparr>world := w\<rparr>)"
  using assms unfolding dbxChunkedUpload_def remote_def
  by (auto split: prod.splits sum.splits option.splits if_splits)

lemma write_fh_first_flush:
  assumes "openfh s fh = Some h" "f h = FFalse" "length buf \<ge> write_cache cfg \<or> length buf < 4096"
  shows "world (snd (write_fh cfg dbx p buf off fh s)) = snd (files_upload_session_start dbx buf (world s))"
    and "files_upload_session_start dbx buf (world s) = (Inr (Some sid), w) \<Longrightarrow>
         write_fh cfg dbx p buf off fh s =
           (Inr (length buf),
            s\<lparr>world := w, openfh := (openfh s)(fh \<mapsto> h\<lparr>f := FUpload sid (length buf) (Text [])\<rparr>)\<rparr>)"
  using assms unfolding write_unfold dbxChunkedUpload_def remote_def
  by (auto split: option.splits fobj.splits if_splits prod.splits sum.splits)

lemma write_fh_first_buffer:
  assumes "openfh s fh = Some h" "f h = FFalse" "\<not> (length buf \<ge> write_cache cfg \<or> length buf < 4096)"
  shows "write_fh cfg dbx p buf off fh s =
           (Inr (length buf), s\<lparr>openfh := (openfh s)(fh \<mapsto> h\<lparr>f := FUpload [] 0 (Bytes buf)\<rparr>)\<rparr>)"
  using assms unfolding write_unfold
  by (auto split: option.splits fobj.splits if_splits prod.splits sum.splits)

lemma write_fh_buffering_flush:
  assumes "openfh s fh = Some h" "f h = FUpload [] off0 (Bytes b)"
    "length buf + length b \<ge> write_cache cfg \<or> length buf < 4096"
  shows "world (snd (write_fh cfg dbx p buf off fh s)) =
           snd (files_upload_session_start dbx (b @ buf) (world s))"
    and "files_upload_session_start dbx (b @ buf) (world s) = (Inr (Some sid), w) \<Longrightarrow>
         write_fh cfg dbx p buf off fh s =
           (Inr (length buf),
            s\<lparr>world := w,
              openfh := (openfh s)(fh \<mapsto> h\<lparr>f := FUpload sid (off0 + (length b + length buf)) (Text [])\<rparr>)\<rparr>)"
  using assms unfolding write_unfold dbxChunkedUpload_def remote_def
  by (auto split: option.splits fobj.splits if_splits prod.splits sum.splits)

lemma write_fh_buffering_keep:
  assumes "openfh s fh = Some h" "f h = FUpload uid off0 (Bytes b)"
    "\<not> (length buf + length b \<ge> write_cache cfg \<or> length buf < 4096)"
  shows "write_fh cfg dbx p buf off fh s =
           (Inr (length buf), s\<lparr>openfh := (openfh s)(fh \<mapsto> h\<lparr>f := FUpload uid off0 (Bytes (b @ buf))\<rparr>)\<rparr>)"
  using assms unfolding write_unfold
  by (auto split: option.splits fobj.splits if_splits prod.splits sum.splits)

lemma write_fh_after_flush:
  assumes "openfh s fh = Some h" "f h = FUpload uid off0 (Text t)"
  shows "write_fh cfg dbx p buf off fh s = (Inl (FuseOSError EIO), s)"
  using assms unfolding write_unfold
  by (auto split: option.splits fobj.splits if_splits prod.splits sum.splits)

lemma length_big_buf: "length big_buf = 5000"
  by (simp add: big_buf_def)

lemma sim_start: "files_upload_session_start sim_dbx data (w\<lparr>down := False\<rparr>) =
   (Inr (Some ''session''), w\<lparr>down := False, calls := calls w @ [SessionStart data]\<rparr>)"
  by (simp add: sim_dbx_def sim_answer_def)

lemma opened_w_facts:
  "openfh opened_w 1 = Some (fresh_fh ''w'')" "f (fresh_fh ''w'') = FFalse"
  "world opened_w = sim0\<lparr>down := False\<rparr>" "calls sim0 = []"
  by (simp_all add: opened_w_def fresh_fh_def start_state_def sim0_def)

lemma wrote_abc_eq:
  "write_fh cfg4096 sim_dbx ''/f'' ''abc'' 0 1 opened_w = (Inr 3, wrote_abc)"
  "wrote_abc = opened_w\<lparr>world := sim0\<lparr>down := False, calls := [SessionStart ''abc'']\<rparr>,
      openfh := (openfh opened_w)(1 \<mapsto> (fresh_fh ''w'')\<lparr>f := FUpload ''session'' 3 (Text [])\<rparr>)\<rparr>"
proof -
  have small: "length ''abc'' \<ge> write_cache cfg4096 \<or> length ''abc'' < 4096" by simp
  have st: "files_upload_session_start sim_dbx ''abc'' (world opened_w)
      = (Inr (Some ''session''), sim0\<lparr>down := False, calls := calls sim0 @ [SessionStart ''abc'']\<rparr>)"
    unfolding opened_w_facts(3) by (rule sim_start)
  have w: "write_fh cfg4096 sim_dbx ''/f'' ''abc'' 0 1 opened_w =
     (Inr (length ''abc''),
      opened_w\<lparr>world := sim0\<lparr>down := False, calls := calls sim0 @ [SessionStart ''abc'']\<rparr>,
        openfh := (openfh opened_w)(1 \<mapsto> (fresh_fh ''w'')\<lparr>f := FUpload ''session'' (length ''abc'') (Text [])\<rparr>)\<rparr>)"
    by (rule write_fh_first_flush(2)[OF opened_w_facts(1,2) small st])
  show e: "wrote_abc = opened_w\<lparr>world := sim0\<lparr>down := False, calls := [SessionStart ''abc'']\<rparr>,
      openfh := (openfh opened_w)(1 \<mapsto> (fresh_fh ''w'')\<lparr>f := FUpload ''session'' 3 (Text [])\<rparr>)\<rparr>"
    unfolding wrote_abc_def w by (simp add: opened_w_facts(4) numeral_3_eq_3)
  show "write_fh cfg4096 sim_dbx ''/f'' ''abc'' 0 1 opened_w = (Inr 3, wrote_abc)"
    unfolding e w by (simp add: opened_w_facts(4) numeral_3_eq_3)
qed

lemma buffered_big_eq:
  "write_fh cfg_default sim_dbx ''/f'' big_buf 0 1 opened_w = (Inr 5000, buffered_big)"
  "buffered_big = opened_w\<lparr>openfh := (openfh opened_w)(1 \<mapsto> (fresh_fh ''w'')\<lparr>f := FUpload [] 0 (Bytes big_buf)\<rparr>)\<rparr>"
proof -
  have n: "\<not> (length big_buf \<ge> write_cache cfg_default \<or> length big_buf < 4096)"
    by (simp add: length_big_buf cfg_default_def)
  note w = write_fh_first_buffer[OF opened_w_facts(1,2) n, of sim_dbx "''/f''" 0]
  show e: "buffered_big = opened_w\<lparr>openfh := (openfh opened_w)(1 \<mapsto> (fresh_fh ''w'')\<lparr>f := FUpload [] 0 (Bytes big_buf)\<rparr>)\<rparr>"
    unfolding buffered_big_def w by simp
  show "write_fh cfg_default sim_dbx ''/f'' big_buf 0 1 opened_w = (Inr 5000, buffered_big)"
    unfolding e w by (simp add: length_big_buf)
qed

text \<open>
  Claim C10. Whenever \<^verbatim>\<open>write\<close> returns, the value is \<^verbatim>\<open>len(buf)\<close>, the whole length of
  the buffer it was given: in the branches that only keep the bytes in the handle and in
  the branches that start an upload session or append to one.
\<close>

theorem write_fh_full_length:
  "fst (write_fh cfg dbx p buf off fh s) = Inr n \<longrightarrow> n = length buf"
  using write_fh_returns_length by blast

text \<open>
  A write that returns: three bytes on a fresh handle, against the simulated store.
\<close>

theorem write_fh_full_length_witness:
  "fst (write_fh cfg4096 sim_dbx ''/f'' ''abc'' 0 1 opened_w) = Inr 3 \<and> 3 = length ''abc''"
  using write_fh_full_length[of cfg4096 sim_dbx "''/f''" "''abc''" 0 1 opened_w 3]
  by (simp add: wrote_abc_eq(1) del: One_nat_def)

text \<open>
  Claim C5 at the input where the program departs from it. Three bytes on a fresh handle
  start a session at once: the handle then holds the session id, offset 3 and the text
  \<^verbatim>\<open>''\<close> under \<^verbatim>\<open>'buf'\<close>. The next write of three bytes is shorter than 4096, but
  \<^verbatim>\<open>'' + buf\<close> with the bytes of FUSE raises \<^verbatim>\<open>TypeError\<close>: the write ends in \<^verbatim>\<open>EIO\<close>,
  the store sees no call and the handle is as before. The rest of the claim holds (lemmas
  \<open>write_fh_first_flush\<close>, \<open>write_fh_first_buffer\<close>, \<open>write_fh_buffering_flush\<close>).
\<close>

theorem write_fh_small_write_on_session:
  "write_fh cfg4096 sim_dbx ''/f'' ''abc'' 0 1 opened_w = (Inr 3, wrote_abc)
   \<and> map_option f (openfh wrote_abc 1) = Some (FUpload ''session'' 3 (Text []))
   \<and> calls (world wrote_abc) = [SessionStart ''abc'']
   \<and> length ''def'' < 4096
   \<and> write_fh cfg4096 sim_dbx ''/f'' ''def'' 3 1 wrote_abc = (Inl (FuseOSError EIO), wrote_abc)"
proof -
  have o: "openfh wrote_abc 1 = Some ((fresh_fh ''w'')\<lparr>f := FUpload ''session'' 3 (Text [])\<rparr>)"
    unfolding wrote_abc_eq(2) by simp
  have ff: "f ((fresh_fh ''w'')\<lparr>f := FUpload ''session'' 3 (Text [])\<rparr>) = FUpload ''session'' 3 (Text [])"
    by simp
  have a: "map_option f (openfh wrote_abc 1) = Some (FUpload ''session'' 3 (Text []))"
    unfolding o by simp
  have c: "calls (world wrote_abc) = [SessionStart ''abc'']"
    unfolding wrote_abc_eq(2) by simp
  have l: "length ''def'' < 4096" by simp
  note w = write_fh_after_flush[OF o ff, of cfg4096 sim_dbx "''/f''" "''def''" 3]
  from wrote_abc_eq(1) a c l w show ?thesis by blast
qed

text \<open>
  Claim C7 as stated fails. On a handle that keeps the 5000 bytes of a first write
  (offsets 0 to 4999), a write of \<open>abc\<close> at offset 9999 is not rejected: it returns 3 and
  the store receives one session start with the 5000 bytes followed by \<open>abc\<close>.
\<close>

theorem write_fh_noncontiguous_counterexample:
  "write_fh cfg_default sim_dbx ''/f'' big_buf 0 1 opened_w = (Inr 5000, buffered_big)
   \<and> length big_buf = 5000
   \<and> fst (write_fh cfg_default sim_dbx ''/f'' ''abc'' 9999 1 buffered_big) = Inr 3
   \<and> calls (world (snd (write_fh cfg_default sim_dbx ''/f'' ''abc'' 9999 1 buffered_big)))
       = [SessionStart (big_buf @ ''abc'')]"
proof -
  have o: "openfh buffered_big 1 = Some ((fresh_fh ''w'')\<lparr>f := FUpload [] 0 (Bytes big_buf)\<rparr>)"
    unfolding buffered_big_eq(2) by simp
  have ff: "f ((fresh_fh ''w'')\<lparr>f := FUpload [] 0 (Bytes big_buf)\<rparr>) = FUpload [] 0 (Bytes big_buf)"
    by simp
  have small: "length ''abc'' + length big_buf \<ge> write_cache cfg_default \<or> length ''abc'' < 4096"
    by simp
  have wb: "world buffered_big = sim0\<lparr>down := False\<rparr>"
    unfolding buffered_big_eq(2) by (simp add: opened_w_facts(3))
  have st: "files_upload_session_start sim_dbx (big_buf @ ''abc'') (world buffered_big)
      = (Inr (Some ''session''), sim0\<lparr>down := False, calls := calls sim0 @ [SessionStart (big_buf @ ''abc'')]\<rparr>)"
    unfolding wb by (rule sim_start)
  note w = write_fh_buffering_flush(2)[OF o ff small st, of "''/f''" 9999]
  have a: "fst (write_fh cfg_default sim_dbx ''/f'' ''abc'' 9999 1 buffered_big) = Inr 3"
    unfolding w by simp
  have b: "calls (world (snd (write_fh cfg_default sim_dbx ''/f'' ''abc'' 9999 1 buffered_big)))
       = [SessionStart (big_buf @ ''abc'')]"
    unfolding w by (simp add: opened_w_facts(4))
  from buffered_big_eq(1) length_big_buf a b show ?thesis by blast
qed

text \<open>
  Claim C7, amended. \<^verbatim>\<open>write\<close> never reads \<^verbatim>\<open>offset\<close>: the outcome of a call is the same
  for every offset, and it is never "operation not supported". So at any offset: a first
  write is accepted, kept in the handle or sent whole by a session start as its length
  decides; a write on a handle that keeps bytes is accepted, and its bytes are put
  directly behind the kept ones, in the handle or in the payload of the session start.
  Each accepted write returns \<^verbatim>\<open>len(buf)\<close>.
\<close>

theorem write_fh_accepts_any_offset:
  "write_fh cfg dbx p buf off fh s = write_fh cfg dbx p buf off' fh s
   \<and> fst (write_fh cfg dbx p buf off fh s) \<noteq> Inl (FuseOSError EOPNOTSUPP)
   \<and> (openfh s fh = Some h \<and> f h = FFalse \<and> \<not> (write_cache cfg \<le> length buf \<or> length buf < 4096) \<longrightarrow>
        write_fh cfg dbx p buf off fh s =
          (Inr (length buf), s\<lparr>openfh := (openfh s)(fh \<mapsto> h\<lparr>f := FUpload [] 0 (Bytes buf)\<rparr>)\<rparr>))
   \<and> (openfh s fh = Some h \<and> f h = FFalse \<and> (write_cache cfg \<le> length buf \<or> length buf < 4096)
        \<and> files_upload_session_start dbx buf (world s) = (Inr (Some sid), w) \<longrightarrow>
        write_fh cfg dbx p buf off fh s =
          (Inr (length buf),
           s\<lparr>world := w, openfh := (openfh s)(fh \<mapsto> h\<lparr>f := FUpload sid (length buf) (Text [])\<rparr>)\<rparr>))
   \<and> (openfh s fh = Some h \<and> f h = FUpload uid off0 (Bytes b)
        \<and> \<not> (write_cache cfg \<le> length buf + length b \<or> length buf < 4096) \<longrightarrow>
        write_fh cfg dbx p buf off fh s =
          (Inr (length buf), s\<lparr>openfh := (openfh s)(fh \<mapsto> h\<lparr>f := FUpload uid off0 (Bytes (b @ buf))\<rparr>)\<rparr>))
   \<and> (openfh s fh = Some h \<and> f h = FUpload [] off0 (Bytes b)
        \<and> (write_cache cfg \<le> length buf + length b \<or> length buf < 4096)
        \<and> files_upload_session_start dbx (b @ buf) (world s) = (Inr (Some sid), w) \<longrightarrow>
        write_fh cfg dbx p buf off fh s =
          (Inr (length buf),
           s\<lparr>world := w,
             openfh := (openfh s)(fh \<mapsto> h\<lparr>f := FUpload sid (off0 + (length b + length buf)) (Text [])\<rparr>)\<rparr>))"
proof (intro conjI impI)
  show "write_fh cfg dbx p buf off fh s = write_fh cfg dbx p buf off' fh s"
    by (rule write_fh_ignores_offset)
  show "fst (write_fh cfg dbx p buf off fh s) \<noteq> Inl (FuseOSError EOPNOTSUPP)"
    using write_fh_only_EIO[of cfg dbx p buf off fh s] by auto
next
  assume "openfh s fh = Some h \<and> f h = FFalse \<and> \<not> (write_cache cfg \<le> length buf \<or> length buf < 4096)"
  then show "write_fh cfg dbx p buf off fh s =
          (Inr (length buf), s\<lparr>openfh := (openfh s)(fh \<mapsto> h\<lparr>f := FUpload [] 0 (Bytes buf)\<rparr>)\<rparr>)"
    by (intro write_fh_first_buffer) blast+
next
  assume "openfh s fh = Some h \<and> f h = FFalse \<and> (write_cache cfg \<le> length buf \<or> length buf < 4096)
        \<and> files_upload_session_start dbx buf (world s) = (Inr (Some sid), w)"
  then show "write_fh cfg dbx p buf off fh s =
          (Inr (length buf),
           s\<lparr>world := w, openfh := (openfh s)(fh \<mapsto> h\<lparr>f := FUpload sid (length buf) (Text [])\<rparr>)\<rparr>)"
    by (intro write_fh_first_flush(2)) blast+
next
  assume "openfh s fh = Some h \<and> f h = FUpload uid off0 (Bytes b)
        \<and> \<not> (write_cache cfg \<le> length buf + length b \<or> length buf < 4096)"
  then show "write_fh cfg dbx p buf off fh s =
          (Inr (length buf), s\<lparr>openfh := (openfh s)(fh \<mapsto> h\<lparr>f := FUpload uid off0 (Bytes (b @ buf))\<rparr>)\<rparr>)"
    by (intro write_fh_buffering_keep) blast+
next
  assume "openfh s fh = Some h \<and> f h = FUpload [] off0 (Bytes b)
        \<and> (write_cache cfg \<le> length buf + length b \<or> length buf < 4096)
        \<and> files_upload_session_start dbx (b @ buf) (world s) = (Inr (Some sid), w)"
  then show "write_fh cfg dbx p buf off fh s =
          (Inr (length buf),
           s\<lparr>world := w,
             openfh := (openfh s)(fh \<mapsto> h\<lparr>f := FUpload sid (off0 + (length b + length buf)) (Text [])\<rparr>)\<rparr>)"
    by (intro write_fh_buffering_flush(2)) blast+
qed

text \<open>
  The amended claim against the simulated store: the same outcome at offsets 9999 and
  5000, and writes accepted at the offsets 777, 999, 123456 and 9999.
\<close>

theorem write_fh_accepts_any_offset_witness:
  "write_fh cfg_default sim_dbx ''/f'' ''abc'' 9999 1 buffered_big
     = write_fh cfg_default sim_dbx ''/f'' ''abc'' 5000 1 buffered_big
   \<and> fst (write_fh cfg_default sim_dbx ''/f'' ''abc'' 9999 1 buffered_big) \<noteq> Inl (FuseOSError EOPNOTSUPP)
   \<and> map_option f (openfh opened_w 1) = Some FFalse
   \<and> fst (write_fh cfg_default sim_dbx ''/f'' big_buf 777 1 opened_w) = Inr 5000
   \<and> map_option f (openfh (snd (write_fh cfg_default sim_dbx ''/f'' big_buf 777 1 opened_w)) 1)
       = Some (FUpload [] 0 (Bytes big_buf))
   \<and> fst (write_fh cfg4096 sim_dbx ''/f'' ''abc'' 999 1 opened_w) = Inr 3
   \<and> map_option f (openfh (snd (write_fh cfg4096 sim_dbx ''/f'' ''abc'' 999 1 opened_w)) 1)
       = Some (FUpload ''session'' 3 (Text []))
   \<and> calls (world (snd (write_fh cfg4096 sim_dbx ''/f'' ''abc'' 999 1 opened_w))) = [SessionStart ''abc'']
   \<and> map_option f (openfh buffered_big 1) = Some (FUpload [] 0 (Bytes big_buf))
   \<and> fst (write_fh cfg_default sim_dbx ''/f'' big_buf 123456 1 buffered_big) = Inr 5000
   \<and> map_option f (openfh (snd (write_fh cfg_default sim_dbx ''/f'' big_buf 123456 1 buffered_big)) 1)
       = Some (FUpload [] 0 (Bytes (big_buf @ big_buf)))
   \<and> fst (write_fh cfg_default sim_dbx ''/f'' ''abc'' 9999 1 buffered_big) = Inr 3
   \<and> map_option f (openfh (snd (write_fh cfg_default sim_dbx ''/f'' ''abc'' 9999 1 buffered_big)) 1)
       = Some (FUpload ''session'' 5003 (Text []))
   \<and> calls (world (snd (write_fh cfg_default sim_dbx ''/f'' ''abc'' 9999 1 buffered_big)))
       = [SessionStart (big_buf @ ''abc'')]"
proof -
  let ?hw = "fresh_fh ''w''"
  let ?hb = "(fresh_fh ''w'')\<lparr>f := FUpload [] 0 (Bytes big_buf)\<rparr>"
  note o = opened_w_facts(1) and ff = opened_w_facts(2)
  have ob: "openfh buffered_big 1 = Some ?hb" unfolding buffered_big_eq(2) by simp
  have fb: "f ?hb = FUpload [] 0 (Bytes big_buf)" by simp
  have wb: "world buffered_big = sim0\<lparr>down := False\<rparr>"
    unfolding buffered_big_eq(2) by (simp add: opened_w_facts(3))
  \<comment> \<open>the outcome does not depend on the offset\<close>
  from write_fh_accepts_any_offset[where cfg = cfg_default and dbx = sim_dbx and p = "''/f''"
      and buf = "''abc''" and off = 9999 and off' = 5000 and fh = 1 and s = buffered_big]
  have w1: "write_fh cfg_default sim_dbx ''/f'' ''abc'' 9999 1 buffered_big
     = write_fh cfg_default sim_dbx ''/f'' ''abc'' 5000 1 buffered_big"
    and w2: "fst (write_fh cfg_default sim_dbx ''/f'' ''abc'' 9999 1 buffered_big) \<noteq> Inl (FuseOSError EOPNOTSUPP)"
    by blast+
  have w3: "map_option f (openfh opened_w 1) = Some FFalse" unfolding o by (simp add: ff)
  \<comment> \<open>a first write that is kept\<close>
  have nb: "\<not> (write_cache cfg_default \<le> length big_buf \<or> length big_buf < 4096)"
    by (simp add: length_big_buf cfg_default_def)
  from write_fh_accepts_any_offset[where cfg = cfg_default and dbx = sim_dbx and p = "''/f''"
      and buf = big_buf and off = 777 and fh = 1 and s = opened_w and h = "?hw"] o ff nb
  have c: "write_fh cfg_default sim_dbx ''/f'' big_buf 777 1 opened_w =
          (Inr (length big_buf), opened_w\<lparr>openfh := (openfh opened_w)(1 \<mapsto> ?hw\<lparr>f := FUpload [] 0 (Bytes big_buf)\<rparr>)\<rparr>)"
    by blast
  have w4: "fst (write_fh cfg_default sim_dbx ''/f'' big_buf 777 1 opened_w) = Inr 5000"
    unfolding c by (simp add: length_big_buf)
  have w5: "map_option f (openfh (snd (write_fh cfg_default sim_dbx ''/f'' big_buf 777 1 opened_w)) 1)
       = Some (FUpload [] 0 (Bytes big_buf))"
    unfolding c by simp
  \<comment> \<open>a first write that is sent\<close>
  have small: "write_cache cfg4096 \<le> length ''abc'' \<or> length ''abc'' < 4096" by simp
  have st: "files_upload_session_start sim_dbx ''abc'' (world opened_w)
      = (Inr (Some ''session''), sim0\<lparr>down := False, calls := calls sim0 @ [SessionStart ''abc'']\<rparr>)"
    unfolding opened_w_facts(3) by (rule sim_start)
  from write_fh_accepts_any_offset[where cfg = cfg4096 and dbx = sim_dbx and p = "''/f''"
      and buf = "''abc''" and off = 999 and fh = 1 and s = opened_w and h = "?hw"
      and sid = "''session''"
      and w = "sim0\<lparr>down := False, calls := calls sim0 @ [SessionStart ''abc'']\<rparr>"] o ff small st
  have d: "write_fh cfg4096 sim_dbx ''/f'' ''abc'' 999 1 opened_w =
          (Inr (length ''abc''),
           opened_w\<lparr>world := sim0\<lparr>down := False, calls := calls sim0 @ [SessionStart ''abc'']\<rparr>,
             openfh := (openfh opened_w)(1 \<mapsto> ?hw\<lparr>f := FUpload ''session'' (length ''abc'') (Text [])\<rparr>)\<rparr>)"
    by blast
  have w6: "fst (write_fh cfg4096 sim_dbx ''/f'' ''abc'' 999 1 opened_w) = Inr 3"
    unfolding d by simp
  have w7: "map_option f (openfh (snd (write_fh cfg4096 sim_dbx ''/f'' ''abc'' 999 1 opened_w)) 1)
       = Some (FUpload ''session'' 3 (Text []))"
    unfolding d by simp
  have w8: "calls (world (snd (write_fh cfg4096 sim_dbx ''/f'' ''abc'' 999 1 opened_w))) = [SessionStart ''abc'']"
    unfolding d by (simp add: opened_w_facts(4))
  \<comment> \<open>a second write that is kept\<close>
  have w9: "map_option f (openfh buffered_big 1) = Some (FUpload [] 0 (Bytes big_buf))"
    unfolding ob by simp
  have nk: "\<not> (write_cache cfg_default \<le> length big_buf + length big_buf \<or> length big_buf < 4096)"
    by (simp add: length_big_buf cfg_default_def)
  from write_fh_accepts_any_offset[where cfg = cfg_default and dbx = sim_dbx and p = "''/f''"
      and buf = big_buf and off = 123456 and fh = 1 and s = buffered_big and h = "?hb"
      and uid = "[]" and ?off0.0 = 0 and b = big_buf] ob fb nk
  have e: "write_fh cfg_default sim_dbx ''/f'' big_buf 123456 1 buffered_big =
          (Inr (length big_buf),
           buffered_big\<lparr>openfh := (openfh buffered_big)(1 \<mapsto> ?hb\<lparr>f := FUpload [] 0 (Bytes (big_buf @ big_buf))\<rparr>)\<rparr>)"
    by blast
  have w10: "fst (write_fh cfg_default sim_dbx ''/f'' big_buf 123456 1 buffered_big) = Inr 5000"
    unfolding e by (simp add: length_big_buf)
  have w11: "map_option f (openfh (snd (write_fh cfg_default sim_dbx ''/f'' big_buf 123456 1 buffered_big)) 1)
       = Some (FUpload [] 0 (Bytes (big_buf @ big_buf)))"
    unfolding e by simp
  \<comment> \<open>a second write that is sent\<close>
  have sm: "write_cache cfg_default \<le> length ''abc'' + length big_buf \<or> length ''abc'' < 4096" by simp
  have st2: "files_upload_session_start sim_dbx (big_buf @ ''abc'') (world buffered_big)
      = (Inr (Some ''session''), sim0\<lparr>down := False, calls := calls sim0 @ [SessionStart (big_buf @ ''abc'')]\<rparr>)"
    unfolding wb by (rule sim_start)
  from write_fh_accepts_any_offset[where cfg = cfg_default and dbx = sim_dbx and p = "''/f''"
      and buf = "''abc''" and off = 9999 and fh = 1 and s = buffered_big and h = "?hb"
      and ?off0.0 = 0 and b = big_buf and sid = "''session''"
      and w = "sim0\<lparr>down := False, calls := calls sim0 @ [SessionStart (big_buf @ ''abc'')]\<rparr>"] ob fb sm st2
  have g: "write_fh cfg_default sim_dbx ''/f'' ''abc'' 9999 1 buffered_big =
          (Inr (length ''abc''),
           buffered_big\<lparr>world := sim0\<lparr>down := False, calls := calls sim0 @ [SessionStart (big_buf @ ''abc'')]\<rparr>,
             openfh := (openfh buffered_big)(1 \<mapsto> ?hb\<lparr>f := FUpload ''session'' (0 + (length big_buf + length ''abc'')) (Text [])\<rparr>)\<rparr>)"
    by blast
  have w12: "fst (write_fh cfg_default sim_dbx ''/f'' ''abc'' 9999 1 buffered_big) = Inr 3"
    unfolding g by simp
  have w13: "map_option f (openfh (snd (write_fh cfg_default sim_dbx ''/f'' ''abc'' 9999 1 buffered_big)) 1)
       = Some (FUpload ''session'' 5003 (Text []))"
    unfolding g by (simp add: length_big_buf)
  have w14: "calls (world (snd (write_fh cfg_default sim_dbx ''/f'' ''abc'' 9999 1 buffered_big)))
       = [SessionStart (big_buf @ ''abc'')]"
    unfolding g by (simp add: opened_w_facts(4))
  from w1 w2 w3 w4 w5 w6 w7 w8 w9 w10 w11 w12 w13 w14 show ?thesis by blast
qed

subsection \<open>create, write and release in sequence\<close>

lemma create_Some:
  assumes "create p md nowstr s0 = (Inr (Some fh), s1)"
  shows "openfh s1 fh = Some (fresh_fh ''w'')" "runfh s1 fh = Some False" "world s1 = world s0"
    "cache s1 = (cache s0)(p \<mapsto> placeholder p nowstr)" "1 \<le> fh" "fh \<le> 8192" "openfh s0 fh = None"
proof -
  obtain r s' where g: "getFH ''w'' s0 = (r, s')" by (cases "getFH ''w'' s0")
  with assms have r: "r = Some fh" and s1: "s1 = s'\<lparr>cache := (cache s')(p \<mapsto> placeholder p nowstr)\<rparr>"
    by (auto simp: create_def placeholder_def Let_def)
  from g r have gs: "getFH ''w'' s0 = (Some fh, s')" by simp
  from gs have s': "s' = s0\<lparr>openfh := (openfh s0)(fh \<mapsto> fresh_fh ''w''), runfh := (runfh s0)(fh \<mapsto> False)\<rparr>"
    by (auto simp: getFH_def fresh_fh_def split: option.splits)
  show "openfh s1 fh = Some (fresh_fh ''w'')" "runfh s1 fh = Some False" "world s1 = world s0"
    "cache s1 = (cache s0)(p \<mapsto> placeholder p nowstr)"
    by (simp_all add: s1 s')
  from getFH_Some[OF gs] show "1 \<le> fh" "fh \<le> 8192" "openfh s0 fh = None" by auto
qed

lemma removeFromCache_no_contents:
  assumes "\<forall>it. cache s q = Some it \<longrightarrow> contents it = None"
  shows "\<exists>b c. removeFromCache q s = (Inr b, s\<lparr>cache := c\<rparr>)"
proof (cases "cache s q")
  case None
  then have "removeFromCache q s = (Inr False, s\<lparr>cache := cache s\<rparr>)"
    by (simp add: removeFromCache_def)
  then show ?thesis by blast
next
  case (Some it)
  with assms have "contents it = None" by simp
  with Some show ?thesis
    by (auto simp: removeFromCache_def Let_def split: option.splits)
qed

lemma release_commit:
  assumes h: "openfh s fh = Some h" "f h = FUpload uid off0 (Text [])" "uid \<noteq> []" "mode h = ''w''"
    and r: "runfh s fh \<noteq> None"
    and fin: "files_upload_session_finish dbx [] uid off0 p (world s) = (Inr (), w)"
    and par: "\<forall>it. cache s (dirname p) = Some it \<longrightarrow> contents it = None"
  shows "\<exists>s'. release dbx p fh s = (Inr 0, s') \<and> world s' = w \<and> openfh s' fh = None \<and> runfh s' fh = None"
proof -
  let ?s1 = "s\<lparr>world := w\<rparr>"
  have par1: "\<forall>it. cache ?s1 (dirname p) = Some it \<longrightarrow> contents it = None" using par by simp
  from removeFromCache_no_contents[OF par1] obtain b c where
    rm: "removeFromCache (dirname p) ?s1 = (Inr b, ?s1\<lparr>cache := c\<rparr>)" by blast
  have "release dbx p fh s = (Inr 0, ?s1\<lparr>cache := c, openfh := (openfh s)(fh := None), runfh := (runfh s)(fh := None)\<rparr>)"
    using h r fin rm
    by (simp add: release_def seq_def return_def dbxCommitChunkedUpload_def remote_def releaseFH_def Let_def)
  then show ?thesis by simp
qed

lemma find_first_free: "openfh s 1 = None \<Longrightarrow> find (\<lambda>i. openfh s i = None) [1..<8193] = Some 1"
  by (rule find_free) auto

lemma dirname_f: "dirname ''/f'' = ''/''"
  by (simp add: dirname_def)

lemma scenario2_created_eq:
  "create ''/f'' 420 ''2024-01-01T00:00:00Z'' (start_state sim0) = (Inr (Some 1), scenario2_created)"
  "scenario2_created = \<lparr>cache = [''/f'' \<mapsto> placeholder ''/f'' ''2024-01-01T00:00:00Z''],
      openfh = [1 \<mapsto> fresh_fh ''w''], runfh = [1 \<mapsto> False], world = sim0\<rparr>"
proof -
  have e: "openfh (start_state sim0) 1 = None" by (simp add: start_state_def)
  have g: "getFH ''w'' (start_state sim0) =
     (Some 1, (start_state sim0)\<lparr>openfh := (openfh (start_state sim0))(1 \<mapsto> fresh_fh ''w''),
        runfh := (runfh (start_state sim0))(1 \<mapsto> False)\<rparr>)"
    unfolding getFH_def find_first_free[OF e] fresh_fh_def by simp
  have c: "create ''/f'' 420 ''2024-01-01T00:00:00Z'' (start_state sim0) =
     (Inr (Some 1), \<lparr>cache = [''/f'' \<mapsto> placeholder ''/f'' ''2024-01-01T00:00:00Z''],
      openfh = [1 \<mapsto> fresh_fh ''w''], runfh = [1 \<mapsto> False], world = sim0\<rparr>)"
    unfolding create_def g by (simp add: start_state_def placeholder_def)
  show "scenario2_created = \<lparr>cache = [''/f'' \<mapsto> placeholder ''/f'' ''2024-01-01T00:00:00Z''],
      openfh = [1 \<mapsto> fresh_fh ''w''], runfh = [1 \<mapsto> False], world = sim0\<rparr>"
    unfolding scenario2_created_def c by simp
  then show "create ''/f'' 420 ''2024-01-01T00:00:00Z'' (start_state sim0) = (Inr (Some 1), scenario2_created)"
    using c by simp
qed

lemma scenario2_first_eq:
  "write_fh cfg4096 sim_dbx ''/f'' ''0123456789'' 0 1 scenario2_created = (Inr 10, scenario2_first)"
  "scenario2_first = \<lparr>cache = [''/f'' \<mapsto> placeholder ''/f'' ''2024-01-01T00:00:00Z''],
      openfh = [1 \<mapsto> (fresh_fh ''w'')\<lparr>f := FUpload ''session'' 10 (Text [])\<rparr>], runfh = [1 \<mapsto> False],
      world = sim0\<lparr>calls := [SessionStart ''0123456789'']\<rparr>\<rparr>"
proof -
  have w: "write_fh cfg4096 sim_dbx ''/f'' ''0123456789'' 0 1 scenario2_created = (Inr 10,
     \<lparr>cache = [''/f'' \<mapsto> placeholder ''/f'' ''2024-01-01T00:00:00Z''],
      openfh = [1 \<mapsto> (fresh_fh ''w'')\<lparr>f := FUpload ''session'' 10 (Text [])\<rparr>], runfh = [1 \<mapsto> False],
      world = sim0\<lparr>calls := [SessionStart ''0123456789'']\<rparr>\<rparr>)"
    unfolding scenario2_created_eq(2)
    by (simp add: write_fh_def cfg4096_def sim_eval eval_nat_numeral)
  show e: "scenario2_first = \<lparr>cache = [''/f'' \<mapsto> placeholder ''/f'' ''2024-01-01T00:00:00Z''],
      openfh = [1 \<mapsto> (fresh_fh ''w'')\<lparr>f := FUpload ''session'' 10 (Text [])\<rparr>], runfh = [1 \<mapsto> False],
      world = sim0\<lparr>calls := [SessionStart ''0123456789'']\<rparr>\<rparr>"
    unfolding scenario2_first_def w by simp
  show "write_fh cfg4096 sim_dbx ''/f'' ''0123456789'' 0 1 scenario2_created = (Inr 10, scenario2_first)"
    unfolding e w ..
qed

lemma scenario2_written_eq:
  "write_fh cfg4096 sim_dbx ''/f'' ''abcde'' 10 1 scenario2_first = (Inl (FuseOSError EIO), scenario2_first)"
  "scenario2_written = scenario2_first"
proof -
  have o: "openfh scenario2_first 1 = Some ((fresh_fh ''w'')\<lparr>f := FUpload ''session'' 10 (Text [])\<rparr>)"
    unfolding scenario2_first_eq(2) by simp
  have ff: "f ((fresh_fh ''w'')\<lparr>f := FUpload ''session'' 10 (Text [])\<rparr>) = FUpload ''session'' 10 (Text [])"
    by simp
  show w: "write_fh cfg4096 sim_dbx ''/f'' ''abcde'' 10 1 scenario2_first = (Inl (FuseOSError EIO), scenario2_first)"
    by (rule write_fh_after_flush[OF o ff])
  show "scenario2_written = scenario2_first"
    unfolding scenario2_written_def w by simp
qed

lemma scenario2_released_eq:
  "release sim_dbx ''/f'' 1 scenario2_written = (Inr 0, scenario2_released)"
  "scenario2_released = \<lparr>cache = [''/f'' \<mapsto> placeholder ''/f'' ''2024-01-01T00:00:00Z''],
      openfh = Map.empty, runfh = Map.empty,
      world = sim0\<lparr>calls := [SessionStart ''0123456789'', SessionFinish ''session'' 10 ''/f'']\<rparr>\<rparr>"
proof -
  have r: "release sim_dbx ''/f'' 1 scenario2_written = (Inr 0, \<lparr>cache = [''/f'' \<mapsto> placeholder ''/f'' ''2024-01-01T00:00:00Z''],
      openfh = Map.empty, runfh = Map.empty,
      world = sim0\<lparr>calls := [SessionStart ''0123456789'', SessionFinish ''session'' 10 ''/f'']\<rparr>\<rparr>)"
    unfolding scenario2_written_eq(2) scenario2_first_eq(2)
    by (auto simp: release_def dirname_f removeFromCache_def releaseFH_def dbxCommitChunkedUpload_def
          sim_eval Let_def)
  show "scenario2_released = \<lparr>cache = [''/f'' \<mapsto> placeholder ''/f'' ''2024-01-01T00:00:00Z''],
      openfh = Map.empty, runfh = Map.empty,
      world = sim0\<lparr>calls := [SessionStart ''0123456789'', SessionFinish ''session'' 10 ''/f'']\<rparr>\<rparr>"
    unfolding scenario2_released_def r by simp
  then show "release sim_dbx ''/f'' 1 scenario2_written = (Inr 0, scenario2_released)"
    using r by simp
qed

text \<open>
  Claim C1 as stated fails. Against the simulated store, with \<^verbatim>\<open>write_cache\<close> = 4096:
  after \<^verbatim>\<open>create('/f')\<close> the write of ten bytes returns 10 and has started a session with
  them, so the handle holds an open session with offset 10 and is not buffering; the
  write of five bytes raises \<^verbatim>\<open>EIO\<close>; \<^verbatim>\<open>release\<close> then sends the commit at cursor 10 and
  nothing else; and \<^verbatim>\<open>getattr('/f')\<close> afterwards answers from the placeholder that
  \<^verbatim>\<open>create\<close> cached and reports size 0.
\<close>

theorem scenario2_counterexample:
  "fst (write_fh cfg4096 sim_dbx ''/f'' ''0123456789'' 0 1 scenario2_created) = Inr 10
   \<and> map_option f (openfh scenario2_first 1) = Some (FUpload ''session'' 10 (Text []))
   \<and> calls (world scenario2_first) = [SessionStart ''0123456789'']
   \<and> fst (write_fh cfg4096 sim_dbx ''/f'' ''abcde'' 10 1 scenario2_first) = Inl (FuseOSError EIO)
   \<and> calls (world scenario2_released) =
       [SessionStart ''0123456789'', SessionFinish ''session'' 10 ''/f'']
   \<and> fst (getattr env0 cfg4096 sim_dbx 1704067260 ''/f'' scenario2_released) =
       Inr (Some (file_properties 0 1704067200 1704067260 1000 100))"
proof -
  have a: "fst (write_fh cfg4096 sim_dbx ''/f'' ''0123456789'' 0 1 scenario2_created) = Inr 10"
    unfolding scenario2_first_eq(1) by simp
  have b: "map_option f (openfh scenario2_first 1) = Some (FUpload ''session'' 10 (Text []))"
    "calls (world scenario2_first) = [SessionStart ''0123456789'']"
    unfolding scenario2_first_eq(2) by (simp_all add: sim0_def)
  have c: "fst (write_fh cfg4096 sim_dbx ''/f'' ''abcde'' 10 1 scenario2_first) = Inl (FuseOSError EIO)"
    unfolding scenario2_written_eq(1) by simp
  have d: "calls (world scenario2_released) =
       [SessionStart ''0123456789'', SessionFinish ''session'' 10 ''/f'']"
    unfolding scenario2_released_eq(2) by (simp add: sim0_def)
  have e: "fst (getattr env0 cfg4096 sim_dbx 1704067260 ''/f'' scenario2_released) =
       Inr (Some (file_properties 0 1704067200 1704067260 1000 100))"
    unfolding scenario2_released_eq(2)
    by (simp add: getattr_def os_getuid_def env0_def getDropboxMetadata_def needs_refresh_def
          placeholder_def no_meta_def modified_time_def endswith_Z_def properties_def)
  from a b c d e show ?thesis by blast
qed

text \<open>
  Claim C1, amended. After \<^verbatim>\<open>create(p)\<close> returned the handle \<open>fh\<close>, with
  \<^verbatim>\<open>write_cache\<close> = 4096 and a client whose session start succeeds, the write of ten bytes
  does not buffer: it starts an upload session at once with these bytes, returns 10, and
  the handle then holds the session id, offset 10 and no kept bytes. And \<^verbatim>\<open>release\<close> of
  a handle opened for writing that holds an open session, an offset \<open>n\<close> and no kept
  bytes calls the client once, for the commit at cursor \<open>n\<close>, returns 0 and removes the
  handle (the cached parent carrying no \<^verbatim>\<open>'contents'\<close> key). What the write of five bytes
  does and what \<^verbatim>\<open>getattr\<close> reports afterwards are not part of the amended claim.
\<close>

theorem scenario2_session_at_first_write:
  "(create p md nowstr s0 = (Inr (Some fh), s1) \<and> length b1 = 10 \<and> write_cache cfg = 4096
      \<and> files_upload_session_start dbx b1 (world s0) = (Inr (Some sid), w1)
      \<longrightarrow> write_fh cfg dbx p b1 0 fh s1 =
            (Inr 10,
             s1\<lparr>world := w1,
                openfh := (openfh s1)(fh \<mapsto> (fresh_fh ''w'')\<lparr>f := FUpload sid 10 (Text [])\<rparr>)\<rparr>))
   \<and> (openfh s fh' = Some h \<and> f h = FUpload uid n (Text []) \<and> uid \<noteq> [] \<and> mode h = ''w''
      \<and> runfh s fh' \<noteq> None
      \<and> files_upload_session_finish dbx [] uid n p (world s) = (Inr (), w)
      \<and> (\<forall>it. cache s (dirname p) = Some it \<longrightarrow> contents it = None)
      \<longrightarrow> (\<exists>s'. release dbx p fh' s = (Inr 0, s') \<and> world s' = w \<and> openfh s' fh' = None))"
proof (intro conjI impI)
  assume a: "create p md nowstr s0 = (Inr (Some fh), s1) \<and> length b1 = 10 \<and> write_cache cfg = 4096
      \<and> files_upload_session_start dbx b1 (world s0) = (Inr (Some sid), w1)"
  then have cr: "create p md nowstr s0 = (Inr (Some fh), s1)" by blast
  note c = create_Some[OF cr]
  have ff: "f (fresh_fh ''w'') = FFalse" by (simp add: fresh_fh_def)
  have small: "length b1 \<ge> write_cache cfg \<or> length b1 < 4096" using a by simp
  have st: "files_upload_session_start dbx b1 (world s1) = (Inr (Some sid), w1)"
    using a c(3) by simp
  from write_fh_first_flush(2)[OF c(1) ff small st, of p 0] a
  show "write_fh cfg dbx p b1 0 fh s1 =
            (Inr 10,
             s1\<lparr>world := w1,
                openfh := (openfh s1)(fh \<mapsto> (fresh_fh ''w'')\<lparr>f := FUpload sid 10 (Text [])\<rparr>)\<rparr>)"
    by simp
next
  assume a: "openfh s fh' = Some h \<and> f h = FUpload uid n (Text []) \<and> uid \<noteq> [] \<and> mode h = ''w''
      \<and> runfh s fh' \<noteq> None
      \<and> files_upload_session_finish dbx [] uid n p (world s) = (Inr (), w)
      \<and> (\<forall>it. cache s (dirname p) = Some it \<longrightarrow> contents it = None)"
  then have "\<exists>s'. release dbx p fh' s = (Inr 0, s') \<and> world s' = w \<and> openfh s' fh' = None \<and> runfh s' fh' = None"
    by (intro release_commit[where h = h and uid = uid and ?off0.0 = n]) blast+
  then show "\<exists>s'. release dbx p fh' s = (Inr 0, s') \<and> world s' = w \<and> openfh s' fh' = None"
    by blast
qed

text \<open>
  The amended claim against the simulated store: the first write after \<^verbatim>\<open>create\<close>, and
  the release of a handle after one write of three bytes.
\<close>

theorem scenario2_session_at_first_write_witness:
  "create ''/f'' 420 ''2024-01-01T00:00:00Z'' (start_state sim0) = (Inr (Some 1), scenario2_created)
   \<and> length ''0123456789'' = 10 \<and> write_cache cfg4096 = 4096
   \<and> fst (write_fh cfg4096 sim_dbx ''/f'' ''0123456789'' 0 1 scenario2_created) = Inr 10
   \<and> map_option f (openfh (snd (write_fh cfg4096 sim_dbx ''/f'' ''0123456789'' 0 1 scenario2_created)) 1)
       = Some (FUpload ''session'' 10 (Text []))
   \<and> calls (world (snd (write_fh cfg4096 sim_dbx ''/f'' ''0123456789'' 0 1 scenario2_created)))
       = [SessionStart ''0123456789'']
   \<and> map_option f (openfh wrote_abc 1) = Some (FUpload ''session'' 3 (Text []))
   \<and> calls (world wrote_abc) = [SessionStart ''abc'']
   \<and> (\<exists>s'. release sim_dbx ''/f'' 1 wrote_abc = (Inr 0, s')
          \<and> world s' = sim0\<lparr>calls := [SessionStart ''abc'', SessionFinish ''session'' 3 ''/f'']\<rparr>
          \<and> openfh s' 1 = None)"
proof -
  have l: "length ''0123456789'' = 10" by simp
  have wc: "write_cache cfg4096 = 4096" by (simp add: cfg4096_def)
  have ws: "world (start_state sim0) = sim0\<lparr>down := False\<rparr>" by (simp add: start_state_def sim0_def)
  have st: "files_upload_session_start sim_dbx ''0123456789'' (world (start_state sim0))
      = (Inr (Some ''session''), sim0\<lparr>down := False, calls := calls sim0 @ [SessionStart ''0123456789'']\<rparr>)"
    unfolding ws by (rule sim_start)
  from scenario2_session_at_first_write[where p = "''/f''" and md = 420
      and nowstr = "''2024-01-01T00:00:00Z''" and ?s0.0 = "start_state sim0" and fh = 1
      and ?s1.0 = scenario2_created and ?b1.0 = "''0123456789''" and cfg = cfg4096 and dbx = sim_dbx
      and sid = "''session''"
      and ?w1.0 = "sim0\<lparr>down := False, calls := calls sim0 @ [SessionStart ''0123456789'']\<rparr>"]
    scenario2_created_eq(1) l wc st
  have A: "write_fh cfg4096 sim_dbx ''/f'' ''0123456789'' 0 1 scenario2_created =
            (Inr 10,
             scenario2_created\<lparr>world := sim0\<lparr>down := False, calls := calls sim0 @ [SessionStart ''0123456789'']\<rparr>,
                openfh := (openfh scenario2_created)(1 \<mapsto> (fresh_fh ''w'')\<lparr>f := FUpload ''session'' 10 (Text [])\<rparr>)\<rparr>)"
    by blast
  have a1: "fst (write_fh cfg4096 sim_dbx ''/f'' ''0123456789'' 0 1 scenario2_created) = Inr 10"
    unfolding A by simp
  have a2: "map_option f (openfh (snd (write_fh cfg4096 sim_dbx ''/f'' ''0123456789'' 0 1 scenario2_created)) 1)
       = Some (FUpload ''session'' 10 (Text []))"
    unfolding A by simp
  have a3: "calls (world (snd (write_fh cfg4096 sim_dbx ''/f'' ''0123456789'' 0 1 scenario2_created)))
       = [SessionStart ''0123456789'']"
    unfolding A by (simp add: opened_w_facts(4))
  let ?h = "(fresh_fh ''w'')\<lparr>f := FUpload ''session'' 3 (Text [])\<rparr>"
  have o: "openfh wrote_abc 1 = Some ?h" unfolding wrote_abc_eq(2) by simp
  have hf: "f ?h = FUpload ''session'' 3 (Text [])" "mode ?h = ''w''" by (simp_all add: fresh_fh_def)
  have ne: "''session'' \<noteq> []" by simp
  have rf: "runfh wrote_abc 1 \<noteq> None" unfolding wrote_abc_eq(2) by (simp add: opened_w_def)
  have ww: "world wrote_abc = sim0\<lparr>down := False, calls := [SessionStart ''abc'']\<rparr>"
    unfolding wrote_abc_eq(2) by simp
  have fi: "files_upload_session_finish sim_dbx [] ''session'' 3 ''/f'' (world wrote_abc)
      = (Inr (), sim0\<lparr>calls := [SessionStart ''abc'', SessionFinish ''session'' 3 ''/f'']\<rparr>)"
    unfolding ww by (simp add: sim_dbx_def sim_answer_def sim0_def)
  have par: "\<forall>it. cache wrote_abc (dirname ''/f'') = Some it \<longrightarrow> contents it = None"
    unfolding wrote_abc_eq(2) by (simp add: opened_w_def start_state_def)
  from scenario2_session_at_first_write[where s = wrote_abc and fh' = 1 and h = "?h"
      and uid = "''session''" and n = 3 and dbx = sim_dbx and p = "''/f''"
      and w = "sim0\<lparr>calls := [SessionStart ''abc'', SessionFinish ''session'' 3 ''/f'']\<rparr>"]
    o hf ne rf fi par
  have B: "\<exists>s'. release sim_dbx ''/f'' 1 wrote_abc = (Inr 0, s')
          \<and> world s' = sim0\<lparr>calls := [SessionStart ''abc'', SessionFinish ''session'' 3 ''/f'']\<rparr>
          \<and> openfh s' 1 = None"
    by blast
  have b1: "map_option f (openfh wrote_abc 1) = Some (FUpload ''session'' 3 (Text []))"
    unfolding o by simp
  have b2: "calls (world wrote_abc) = [SessionStart ''abc'']" unfolding ww by simp
  from scenario2_created_eq(1) l wc a1 a2 a3 b1 b2 B show ?thesis by blast
qed

subsection \<open>Invalidation, failing mutations and reads\<close>

lemma dirname_a: "dirname ''/a'' = ''/''"
  by (simp add: dirname_def)

lemma listed_a_eq:
  "listed_a = \<lparr>cache = [''/a'' \<mapsto> cached_a, ''/a/x'' \<mapsto> cached_x], openfh = Map.empty,
      runfh = Map.empty, world = sim_a\<lparr>calls := [ListFolder ''/a'']\<rparr>\<rparr>"
  unfolding listed_a_def
  by (simp add: getDropboxMetadata_def fetch_metadata_def dbxMetadata_def dbxMetadata_result_def
      dirname_a start_state_def sim_a_def sim0_def sim_dbx_def sim_list_folder_def sim_answer_def
      remote_def listing_a_def child_x_def cached_a_def cached_x_def set_path_def set_entries_def
      set_cachets_def no_meta_def cfg_default_def Let_def)

text \<open>
  Claim C3 at the input where the program departs from it. The state \<open>listed_a\<close> is what
  \<^verbatim>\<open>getDropboxMetadata('/a')\<close> leaves on an empty cache when the store lists the folder
  \<open>/a\<close> with the one file \<open>/a/x\<close>: both paths are cached, the folder with its listing under
  \<^verbatim>\<open>'entries'\<close>. \<^verbatim>\<open>removeFromCache('/a')\<close> returns \<^verbatim>\<open>True\<close> and removes \<open>/a\<close>, but \<open>/a/x\<close>
  stays, and the next lookup of \<open>/a/x\<close> is answered from the cache without a call of the
  store: the loop that removes the children runs over \<^verbatim>\<open>item['contents']\<close>, a key that no
  statement of the program sets.
\<close>

theorem removeFromCache_keeps_children:
  "cache listed_a ''/a'' = Some cached_a \<and> entries cached_a = Some [cached_x]
   \<and> cache listed_a ''/a/x'' = Some cached_x
   \<and> fst (removeFromCache ''/a'' listed_a) = Inr True
   \<and> cache (snd (removeFromCache ''/a'' listed_a)) ''/a'' = None
   \<and> cache (snd (removeFromCache ''/a'' listed_a)) ''/a/x'' = Some cached_x
   \<and> getDropboxMetadata cfg_default sim_dbx 1000 ''/a/x'' False (snd (removeFromCache ''/a'' listed_a))
       = (Inr (Some cached_x), snd (removeFromCache ''/a'' listed_a))"
proof -
  have r: "removeFromCache ''/a'' listed_a =
     (Inr True, \<lparr>cache = [''/a/x'' \<mapsto> cached_x], openfh = Map.empty,
      runfh = Map.empty, world = sim_a\<lparr>calls := [ListFolder ''/a'']\<rparr>\<rparr>)"
    unfolding listed_a_eq
    by (auto simp: removeFromCache_def dirname_a cached_a_def Let_def)
  have a: "cache listed_a ''/a'' = Some cached_a" "cache listed_a ''/a/x'' = Some cached_x"
    unfolding listed_a_eq by simp_all
  have e: "entries cached_a = Some [cached_x]" by (simp add: cached_a_def)
  have g: "getDropboxMetadata cfg_default sim_dbx 1000 ''/a/x'' False (snd (removeFromCache ''/a'' listed_a))
       = (Inr (Some cached_x), snd (removeFromCache ''/a'' listed_a))"
    unfolding r by (simp add: getDropboxMetadata_def needs_refresh_def cached_x_def)
  from a e g show ?thesis unfolding r by simp
qed

lemma remove_childs_only_removes:
  "remove_childs cs c = (e, c') \<Longrightarrow> c q = None \<Longrightarrow> c' q = None"
  by (induction cs arbitrary: c) (auto split: option.splits if_splits)

lemma removeFromCache_absent: "cache s p = None \<Longrightarrow> removeFromCache p s = (Inr False, s)"
  by (simp add: removeFromCache_def)

lemma removeFromCache_removes_path:
  assumes "removeFromCache p s = (Inr b, s')"
  shows "cache s' p = None"
  using assms unfolding removeFromCache_def Let_def
  by (auto split: option.splits prod.splits if_splits)

lemma removeFromCache_rest:
  "openfh (snd (removeFromCache p s)) = openfh s \<and> runfh (snd (removeFromCache p s)) = runfh s
   \<and> world (snd (removeFromCache p s)) = world s"
  unfolding removeFromCache_def Let_def
  by (auto split: option.splits prod.splits if_splits)

lemma mkdir_failure:
  assumes "files_create_folder dbx p (world s) = (Inl e, w)"
  shows "mkdir dbx p md s = (Inl (FuseOSError EIO), s\<lparr>world := w\<rparr>)"
  using assms by (simp add: mkdir_def seq_def raising_def dbxFileCreateFolder_def remote_def)

lemma rmdir_failure:
  assumes "files_delete dbx p (world s) = (Inl e, w)"
  shows "rmdir dbx p s = (Inl (FuseOSError EIO), s\<lparr>world := w\<rparr>)"
  using assms by (simp add: rmdir_def seq_def raising_def dbxFileDelete_def remote_def)

lemma rename_failure:
  assumes "files_move dbx old new (world s) = (Inl e, w)"
  shows "rename dbx old new s = (Inl (FuseOSError EIO), s\<lparr>world := w\<rparr>)"
  using assms by (simp add: rename_def seq_def raising_def dbxFileMove_def remote_def)

text \<open>
  Claim C4 at the input where the program departs from it. With \<open>/f\<close> cached and a store
  whose calls fail, \<^verbatim>\<open>unlink('/f')\<close> raises \<^verbatim>\<open>EIO\<close> and has removed \<open>/f\<close> from the cache
  all the same: it calls \<^verbatim>\<open>removeFromCache\<close> before the store. \<^verbatim>\<open>rmdir\<close> on the same state
  raises \<^verbatim>\<open>EIO\<close> and leaves the cache as it was, as \<^verbatim>\<open>mkdir\<close> and \<^verbatim>\<open>rename\<close> do (lemmas
  \<open>mkdir_failure\<close>, \<open>rmdir_failure\<close>, \<open>rename_failure\<close>).
\<close>

theorem unlink_failure_empties_cache:
  "cache cached_f_down ''/f'' = Some (placeholder ''/f'' ''2024-01-01T00:00:00Z'')
   \<and> files_delete sim_dbx ''/f'' (world cached_f_down)
       = (Inl (Exception ''connection failed''), sim_down\<lparr>calls := [Delete ''/f'']\<rparr>)
   \<and> fst (unlink sim_dbx ''/f'' cached_f_down) = Inl (FuseOSError EIO)
   \<and> cache (snd (unlink sim_dbx ''/f'' cached_f_down)) ''/f'' = None
   \<and> fst (rmdir sim_dbx ''/f'' cached_f_down) = Inl (FuseOSError EIO)
   \<and> cache (snd (rmdir sim_dbx ''/f'' cached_f_down)) ''/f''
       = Some (placeholder ''/f'' ''2024-01-01T00:00:00Z'')"
proof -
  have d: "files_delete sim_dbx ''/f'' (world cached_f_down)
       = (Inl (Exception ''connection failed''), sim_down\<lparr>calls := [Delete ''/f'']\<rparr>)"
    by (simp add: cached_f_down_def start_state_def sim_down_def sim0_def sim_dbx_def sim_delete_def
          sim_answer_def)
  have c: "cache cached_f_down ''/f'' = Some (placeholder ''/f'' ''2024-01-01T00:00:00Z'')"
    by (simp add: cached_f_down_def)
  have u: "unlink sim_dbx ''/f'' cached_f_down =
      (Inl (FuseOSError EIO), cached_f_down\<lparr>cache := Map.empty, world := sim_down\<lparr>calls := [Delete ''/f'']\<rparr>\<rparr>)"
    by (auto simp: unlink_def seq_def raising_def dbxFileDelete_def remote_def removeFromCache_def
          dirname_f cached_f_down_def start_state_def sim_down_def sim0_def sim_dbx_def sim_delete_def
          sim_answer_def placeholder_def Let_def)
  note r = rmdir_failure[OF d]
  from c d show ?thesis unfolding u r by simp
qed

lemma wait_lock_False: "wait_lock False = Some ()"
  by (simp add: wait_lock.simps)

lemma dbxFilehandle_ignores_seek: "dbxFilehandle dbx p seek s = dbxFilehandle dbx p 0 s"
  by (simp add: dbxFilehandle_def)

lemmas read_eval = read_def read_body_def read_done_def wait_lock_False dbxFilehandle_def
  sim_download_def sim_raw_read_def sim_file_def

text \<open>
  Claim C2 at the input where the program departs from it. The file \<open>/f\<close> holds
  \<open>abcdefgh\<close>. A read of 4 bytes at offset 2 on a fresh handle opens a stream and returns
  \<open>abcd\<close>, the bytes at offset 0, where the file has \<open>cdef\<close> at offset 2:
  \<^verbatim>\<open>dbxFilehandle(path, seek)\<close> never uses \<^verbatim>\<open>seek\<close>. The expected offset becomes 6, and the
  read at offset 6 that follows continues the stream and returns \<open>efgh\<close>, where the file
  has \<open>gh\<close>.
\<close>

theorem read_ignores_offset:
  "read sim_dbx ''/f'' 4 2 1 opened_r = Some (Inr ''abcd'', read_at_2)
   \<and> take 4 (drop 2 ''abcdefgh'') = ''cdef''
   \<and> map_option fst (read sim_dbx ''/f'' 4 6 1 read_at_2) = Some (Inr ''efgh'')
   \<and> take 4 (drop 6 ''abcdefgh'') = ''gh''"
proof -
  have a: "read sim_dbx ''/f'' 4 2 1 opened_r = Some (Inr ''abcd'', read_at_2)"
    by (simp add: read_eval opened_r_def read_at_2_def sim_eval)
  have b: "map_option fst (read sim_dbx ''/f'' 4 6 1 read_at_2) = Some (Inr ''efgh'')"
    by (simp add: read_eval read_at_2_def sim_eval)
  from a b show ?thesis by simp
qed

lemma read_opens_stream:
  assumes "openfh s fh = Some h" "\<not> lock h" "f h = FFalse \<or> (\<exists>st0. f h = FStream st0 \<and> eoffset h \<noteq> off)"
    and "files_download dbx p (world s) = (Inr st, w1)"
    and "raw_read dbx st len w1 = (Inr rbytes, w2)"
  shows "read dbx p len off fh s =
     Some (Inr rbytes,
       s\<lparr>world := w2,
         openfh := (openfh s)(fh \<mapsto> h\<lparr>f := FStream st, lock := False, eoffset := off + length rbytes\<rparr>),
         runfh := (runfh s)(fh \<mapsto> False)\<rparr>)"
  using assms
  by (auto simp: read_def read_body_def read_done_def wait_lock_False dbxFilehandle_def seq_def
      raising_def return_def set_f_def remote_def)

lemma read_continues_stream:
  assumes "openfh s fh = Some h" "\<not> lock h" "f h = FStream st0" "eoffset h = off"
    and "raw_read dbx st0 len (world s) = (Inr rbytes, w)"
  shows "read dbx p len off fh s =
     Some (Inr rbytes,
       s\<lparr>world := w,
         openfh := (openfh s)(fh \<mapsto> h\<lparr>lock := False, eoffset := off + length rbytes\<rparr>),
         runfh := (runfh s)(fh \<mapsto> False)\<rparr>)"
  using assms
  by (auto simp: read_def read_body_def read_done_def wait_lock_False dbxFilehandle_def seq_def
      raising_def return_def set_f_def remote_def)

subsection \<open>Lookups in the metadata cache\<close>

lemma lookup_hit:
  assumes "cache s p = Some it" "entries it = None \<or> (\<exists>t. cachets (meta it) = Some t \<and> now \<le> t)"
  shows "getDropboxMetadata cfg dbx now p False s = (Inr (Some it), s)"
  using assms by (auto simp: getDropboxMetadata_def needs_refresh_def split: option.splits)

lemma dbxMetadata_rest:
  "cache (snd (dbxMetadata dbx p h s)) = cache s \<and> openfh (snd (dbxMetadata dbx p h s)) = openfh s
   \<and> runfh (snd (dbxMetadata dbx p h s)) = runfh s"
  unfolding dbxMetadata_def remote_def Let_def
  by (auto split: prod.splits sum.splits option.splits)

lemma refresh_metadata_world:
  "world (snd (refresh_metadata cfg dbx now p it s)) = world (snd (dbxMetadata dbx p (ident (meta it)) s))"
proof -
  obtain r s1 where d: "dbxMetadata dbx p (ident (meta it)) s = (r, s1)"
    by (cases "dbxMetadata dbx p (ident (meta it)) s")
  have w: "world (snd (removeFromCache p s1)) = world s1" using removeFromCache_rest by blast
  show ?thesis
    using w unfolding refresh_metadata_def d
    by (auto simp: Let_def split: sum.splits option.splits prod.splits)
qed

lemma lookup_stale_listing:
  assumes "cache s p = Some it" "entries it \<noteq> None" "cachets (meta it) = Some t" "t < now"
  shows "world (snd (getDropboxMetadata cfg dbx now p deep s))
           = world (snd (dbxMetadata dbx p (ident (meta it)) s))"
  using assms
  by (auto simp: getDropboxMetadata_def needs_refresh_def refresh_metadata_world split: option.splits)

lemma fetch_metadata_world:
  assumes "\<not> (case cache s (dirname p) of Some parent \<Rightarrow> contents parent \<noteq> None | None \<Rightarrow> False)"
  shows "world (snd (fetch_metadata cfg dbx now p s)) = world (snd (dbxMetadata dbx p None s))"
    and "fst (dbxMetadata dbx p None s) = Inr None \<Longrightarrow> fst (fetch_metadata cfg dbx now p s) = Inr None"
proof -
  obtain r s1 where d: "dbxMetadata dbx p None s = (r, s1)" by (cases "dbxMetadata dbx p None s")
  show "world (snd (fetch_metadata cfg dbx now p s)) = world (snd (dbxMetadata dbx p None s))"
    using assms unfolding fetch_metadata_def d
    by (auto simp: Let_def split: sum.splits option.splits prod.splits)
  show "fst (dbxMetadata dbx p None s) = Inr None \<Longrightarrow> fst (fetch_metadata cfg dbx now p s) = Inr None"
    using assms unfolding fetch_metadata_def d
    by (auto simp: Let_def split: sum.splits option.splits prod.splits)
qed

lemma fetch_metadata_parent_listed:
  assumes "cache s (dirname p) = Some parent" "contents parent \<noteq> None"
  shows "fetch_metadata cfg dbx now p s = (Inr None, s)"
  using assms by (simp add: fetch_metadata_def)

text \<open>
  Claim C6 as stated fails. A cached file entry whose \<^verbatim>\<open>cachets\<close> (100) lies before the
  clock (1000) is returned as it is, and the store sees no call: only an item with
  \<^verbatim>\<open>'entries'\<close> is ever refreshed. And the lookup of a path that is not cached does not
  stop at the miss: it asks the store and returns the item it gets.
\<close>

theorem stale_file_counterexample:
  "cache stale_state ''/f'' = Some stale_f \<and> cachets (meta stale_f) = Some 100 \<and> (100::int) < 1000
   \<and> getDropboxMetadata cfg_default sim_dbx 1000 ''/f'' False stale_state = (Inr (Some stale_f), stale_state)
   \<and> calls (world stale_state) = []
   \<and> cache (start_state sim_a) ''/a'' = None
   \<and> fst (getDropboxMetadata cfg_default sim_dbx 1000 ''/a'' False (start_state sim_a)) = Inr (Some cached_a)"
proof -
  have a: "getDropboxMetadata cfg_default sim_dbx 1000 ''/f'' False stale_state = (Inr (Some stale_f), stale_state)"
    by (simp add: getDropboxMetadata_def needs_refresh_def stale_state_def stale_f_def)
  have b: "calls (world stale_state) = []" by (simp add: stale_state_def start_state_def sim0_def)
  have c: "cache stale_state ''/f'' = Some stale_f" by (simp add: stale_state_def)
  have d: "cachets (meta stale_f) = Some 100" by (simp add: stale_f_def)
  have e: "cache (start_state sim_a) ''/a'' = None" by (simp add: start_state_def)
  have g: "fst (getDropboxMetadata cfg_default sim_dbx 1000 ''/a'' False (start_state sim_a)) = Inr (Some cached_a)"
    by (simp add: getDropboxMetadata_def fetch_metadata_def dbxMetadata_def dbxMetadata_result_def
      dirname_a start_state_def sim_a_def sim0_def sim_dbx_def sim_list_folder_def sim_answer_def
      remote_def listing_a_def child_x_def cached_a_def cached_x_def set_path_def set_entries_def
      set_cachets_def no_meta_def cfg_default_def Let_def)
  from a b c d e g show ?thesis by simp
qed

text \<open>
  Claim C6, amended. A lookup (not deep) of a cached path returns the cached item and
  leaves the state as it is, without a call of the store, when the item has no
  \<^verbatim>\<open>'entries'\<close> (a file entry, whatever its \<^verbatim>\<open>cachets\<close>) or its \<^verbatim>\<open>cachets\<close> has not
  passed; a lookup of a cached folder listing whose \<^verbatim>\<open>cachets\<close> has passed calls the store
  through \<^verbatim>\<open>dbxMetadata\<close> before it returns; after \<^verbatim>\<open>removeFromCache(p)\<close> returned, \<open>p\<close> is
  not cached; a lookup of a path that is not cached returns \<^verbatim>\<open>False\<close> without a call of
  the store when the cached parent carries \<^verbatim>\<open>'contents'\<close>, and otherwise calls the store
  through \<^verbatim>\<open>dbxMetadata\<close> and returns \<^verbatim>\<open>False\<close> when that returns \<^verbatim>\<open>False\<close>.
\<close>

theorem getDropboxMetadata_cached:
  "(cache s p = Some it \<and> (entries it = None \<or> (\<exists>t. cachets (meta it) = Some t \<and> now \<le> t))
      \<longrightarrow> getDropboxMetadata cfg dbx now p False s = (Inr (Some it), s))
   \<and> (cache s p = Some it \<and> entries it \<noteq> None \<and> cachets (meta it) = Some t \<and> t < now
      \<longrightarrow> world (snd (getDropboxMetadata cfg dbx now p deep s))
            = world (snd (dbxMetadata dbx p (ident (meta it)) s)))
   \<and> (removeFromCache p s = (Inr b, s') \<longrightarrow> cache s' p = None)
   \<and> (cache s p = None \<and> cache s (dirname p) = Some parent \<and> contents parent \<noteq> None
      \<longrightarrow> getDropboxMetadata cfg dbx now p deep s = (Inr None, s))
   \<and> (cache s p = None \<and> (cache s (dirname p) = None \<or> (cache s (dirname p) = Some parent \<and> contents parent = None))
      \<longrightarrow> world (snd (getDropboxMetadata cfg dbx now p deep s)) = world (snd (dbxMetadata dbx p None s))
          \<and> (fst (dbxMetadata dbx p None s) = Inr None
              \<longrightarrow> fst (getDropboxMetadata cfg dbx now p deep s) = Inr None))"
proof (intro conjI impI)
  assume "cache s p = Some it \<and> (entries it = None \<or> (\<exists>t. cachets (meta it) = Some t \<and> now \<le> t))"
  then show "getDropboxMetadata cfg dbx now p False s = (Inr (Some it), s)"
    by (intro lookup_hit) blast+
next
  assume "cache s p = Some it \<and> entries it \<noteq> None \<and> cachets (meta it) = Some t \<and> t < now"
  then show "world (snd (getDropboxMetadata cfg dbx now p deep s))
            = world (snd (dbxMetadata dbx p (ident (meta it)) s))"
    by (intro lookup_stale_listing[where t = t]) blast+
next
  assume "removeFromCache p s = (Inr b, s')"
  then show "cache s' p = None" by (rule removeFromCache_removes_path)
next
  assume a: "cache s p = None \<and> cache s (dirname p) = Some parent \<and> contents parent \<noteq> None"
  then have "fetch_metadata cfg dbx now p s = (Inr None, s)"
    by (intro fetch_metadata_parent_listed[where parent = parent]) blast+
  with a show "getDropboxMetadata cfg dbx now p deep s = (Inr None, s)"
    by (simp add: getDropboxMetadata_def)
next
  assume a: "cache s p = None \<and> (cache s (dirname p) = None \<or> (cache s (dirname p) = Some parent \<and> contents parent = None))"
  then have n: "\<not> (case cache s (dirname p) of Some parent \<Rightarrow> contents parent \<noteq> None | None \<Rightarrow> False)"
    by auto
  from a have g: "getDropboxMetadata cfg dbx now p deep s = fetch_metadata cfg dbx now p s"
    by (simp add: getDropboxMetadata_def)
  show "world (snd (getDropboxMetadata cfg dbx now p deep s)) = world (snd (dbxMetadata dbx p None s))"
    unfolding g by (rule fetch_metadata_world(1)[OF n])
  assume "fst (dbxMetadata dbx p None s) = Inr None"
  then show "fst (getDropboxMetadata cfg dbx now p deep s) = Inr None"
    unfolding g by (rule fetch_metadata_world(2)[OF n])
qed

lemma dirname_g: "dirname ''/g'' = ''/''"
  by (simp add: dirname_def)

lemma sim_dbxMetadata_listed:
  "dbxMetadata sim_dbx ''/a'' h (s\<lparr>world := sim_a\<lparr>calls := cs\<rparr>\<rparr>)
     = (Inr (Some (Item (no_meta\<lparr>path := Some ''/a''\<rparr>) (Some [cached_x]) None)),
        s\<lparr>world := sim_a\<lparr>calls := cs @ [ListFolder ''/a'']\<rparr>\<rparr>)"
  by (simp add: dbxMetadata_def dbxMetadata_result_def sim_a_def sim0_def sim_dbx_def
      sim_list_folder_def sim_answer_def remote_def listing_a_def child_x_def cached_x_def
      set_path_def set_entries_def no_meta_def Let_def)

lemma sim_dbxMetadata_missing:
  "dbxMetadata sim_dbx ''/g'' h (s\<lparr>world := sim_a\<lparr>calls := cs\<rparr>\<rparr>)
     = (Inr None, s\<lparr>world := sim_a\<lparr>calls := cs @ [ListFolder ''/g'']\<rparr>\<rparr>)"
  by (simp add: dbxMetadata_def sim_a_def sim0_def sim_dbx_def
      sim_list_folder_def sim_answer_def remote_def Let_def)

lemma removeFromCache_listed_a:
  "removeFromCache ''/a'' listed_a =
     (Inr True, \<lparr>cache = [''/a/x'' \<mapsto> cached_x], openfh = Map.empty,
      runfh = Map.empty, world = sim_a\<lparr>calls := [ListFolder ''/a'']\<rparr>\<rparr>)"
  unfolding listed_a_eq
  by (auto simp: removeFromCache_def dirname_a cached_a_def Let_def)

text \<open>
  The five cases against the simulated store.
\<close>

theorem getDropboxMetadata_cached_witness:
  "cache stale_state ''/f'' = Some stale_f \<and> entries stale_f = None
   \<and> getDropboxMetadata cfg_default sim_dbx 1000 ''/f'' False stale_state = (Inr (Some stale_f), stale_state)
   \<and> cache listed_a ''/a'' = Some cached_a \<and> cachets (meta cached_a) = Some 1120
   \<and> calls (world (snd (getDropboxMetadata cfg_default sim_dbx 2000 ''/a'' False listed_a)))
       = [ListFolder ''/a'', ListFolder ''/a'']
   \<and> cache (snd (removeFromCache ''/a'' listed_a)) ''/a'' = None
   \<and> getDropboxMetadata cfg_default sim_dbx 1000 ''/g'' False listed_root = (Inr None, listed_root)
   \<and> cache (start_state sim_a) ''/g'' = None \<and> cache (start_state sim_a) (dirname ''/g'') = None
   \<and> calls (world (snd (getDropboxMetadata cfg_default sim_dbx 1000 ''/g'' False (start_state sim_a))))
       = [ListFolder ''/g'']
   \<and> fst (getDropboxMetadata cfg_default sim_dbx 1000 ''/g'' False (start_state sim_a)) = Inr None"
proof -
  have c1: "cache stale_state ''/f'' = Some stale_f" by (simp add: stale_state_def)
  have e1: "entries stale_f = None" by (simp add: stale_f_def)
  from getDropboxMetadata_cached[where s = stale_state and p = "''/f''" and it = stale_f
      and now = 1000 and cfg = cfg_default and dbx = sim_dbx] c1 e1
  have w1: "getDropboxMetadata cfg_default sim_dbx 1000 ''/f'' False stale_state = (Inr (Some stale_f), stale_state)"
    by blast
  have c2: "cache listed_a ''/a'' = Some cached_a" unfolding listed_a_eq by simp
  have e2: "entries cached_a \<noteq> None" "cachets (meta cached_a) = Some 1120" "(1120::int) < 2000"
    by (simp_all add: cached_a_def)
  from getDropboxMetadata_cached[where s = listed_a and p = "''/a''" and it = cached_a and t = 1120
      and now = 2000 and cfg = cfg_default and dbx = sim_dbx and deep = False] c2 e2
  have g2: "world (snd (getDropboxMetadata cfg_default sim_dbx 2000 ''/a'' False listed_a))
            = world (snd (dbxMetadata sim_dbx ''/a'' (ident (meta cached_a)) listed_a))"
    by blast
  have l2: "listed_a = listed_a\<lparr>world := sim_a\<lparr>calls := [ListFolder ''/a'']\<rparr>\<rparr>"
    unfolding listed_a_eq by simp
  have d2: "dbxMetadata sim_dbx ''/a'' (ident (meta cached_a)) listed_a
     = (Inr (Some (Item (no_meta\<lparr>path := Some ''/a''\<rparr>) (Some [cached_x]) None)),
        listed_a\<lparr>world := sim_a\<lparr>calls := [ListFolder ''/a''] @ [ListFolder ''/a'']\<rparr>\<rparr>)"
    using sim_dbxMetadata_listed[where h = "ident (meta cached_a)" and s = listed_a and cs = "[ListFolder ''/a'']"] l2 by simp
  have w2: "calls (world (snd (getDropboxMetadata cfg_default sim_dbx 2000 ''/a'' False listed_a)))
       = [ListFolder ''/a'', ListFolder ''/a'']"
    unfolding g2 d2 by simp
  have r3: "removeFromCache ''/a'' listed_a = (Inr True, snd (removeFromCache ''/a'' listed_a))"
    unfolding removeFromCache_listed_a by simp
  from getDropboxMetadata_cached[where s = listed_a and p = "''/a''" and b = True
      and s' = "snd (removeFromCache ''/a'' listed_a)"] r3
  have w3: "cache (snd (removeFromCache ''/a'' listed_a)) ''/a'' = None" by blast
  have c4: "cache listed_root ''/g'' = None" "cache listed_root (dirname ''/g'') = Some (Item no_meta (Some []) (Some []))"
    "contents (Item no_meta (Some []) (Some [])) \<noteq> None"
    by (simp_all add: listed_root_def dirname_g)
  from getDropboxMetadata_cached[where s = listed_root and p = "''/g''"
      and parent = "Item no_meta (Some []) (Some [])"
      and now = 1000 and cfg = cfg_default and dbx = sim_dbx and deep = False] c4
  have w4: "getDropboxMetadata cfg_default sim_dbx 1000 ''/g'' False listed_root = (Inr None, listed_root)"
    by blast
  have c5: "cache (start_state sim_a) ''/g'' = None" "cache (start_state sim_a) (dirname ''/g'') = None"
    by (simp_all add: start_state_def)
  have s5: "start_state sim_a = (start_state sim_a)\<lparr>world := sim_a\<lparr>calls := []\<rparr>\<rparr>"
    by (simp add: start_state_def sim_a_def sim0_def)
  have d5: "dbxMetadata sim_dbx ''/g'' None (start_state sim_a)
     = (Inr None, (start_state sim_a)\<lparr>world := sim_a\<lparr>calls := [ListFolder ''/g'']\<rparr>\<rparr>)"
    using sim_dbxMetadata_missing[where h = None and s = "start_state sim_a" and cs = "[]"] s5 by simp
  from getDropboxMetadata_cached[where s = "start_state sim_a" and p = "''/g''"
      and now = 1000 and cfg = cfg_default and dbx = sim_dbx and deep = False] c5
  have g5: "world (snd (getDropboxMetadata cfg_default sim_dbx 1000 ''/g'' False (start_state sim_a)))
       = world (snd (dbxMetadata sim_dbx ''/g'' None (start_state sim_a)))"
    "fst (dbxMetadata sim_dbx ''/g'' None (start_state sim_a)) = Inr None
              \<longrightarrow> fst (getDropboxMetadata cfg_default sim_dbx 1000 ''/g'' False (start_state sim_a)) = Inr None"
    by blast+
  have w5: "calls (world (snd (getDropboxMetadata cfg_default sim_dbx 1000 ''/g'' False (start_state sim_a))))
       = [ListFolder ''/g'']"
    unfolding g5(1) d5 by simp
  have w6: "fst (getDropboxMetadata cfg_default sim_dbx 1000 ''/g'' False (start_state sim_a)) = Inr None"
    using g5(2) d5 by simp
  from c1 e1 w1 c2 e2(2) w2 w3 w4 c5 w5 w6 show ?thesis by blast
qed

subsection \<open>Attributes\<close>














end
